theory Spec2Isabelle
  imports Complex_Main "HOL-Library.Multiset"
begin

section \<open>Data model (types.ts)\<close>

datatype PropertyColor =
  BROWN | LIGHT_BLUE | PINK | ORANGE | RED | YELLOW | GREEN | DARK_BLUE | RAILROAD | UTILITY | ANY

datatype CardType = PROPERTY | ACTION | RENT | MONEY | WILD

text \<open>
  Interface \<open>Card\<close>. The optional fields are options; \<open>value\<close> is a JavaScript number
  that only ever holds an integer.
\<close>

record card =
  card_id :: string
  card_name :: string
  card_type :: CardType
  card_value :: int
  card_color :: "PropertyColor option"
  card_secondaryColor :: "PropertyColor option"
  card_description :: "string option"

record property_set =
  color :: PropertyColor
  cards :: "card list"
  isComplete :: bool

record player =
  player_id :: string
  player_name :: string
  hand :: "card list"
  bank :: "card list"
  properties :: "property_set list"
  isAI :: bool

datatype GamePhase = LOBBY | START_TURN | PLAY_PHASE | END_TURN | GAME_OVER

datatype PendingType = FORCE_DEAL | SLY_DEAL | DEAL_BREAKER | RENT_ALL | DEBT_COLLECTOR | BIRTHDAY

text \<open>
  Interface \<open>PendingAction\<close>. Indices are JavaScript numbers and may be any integer;
  \<open>jsnStack\<close> is created as 0 and only ever incremented.
\<close>

record pending_action =
  pa_type :: PendingType
  pa_card :: card
  attackerIndex :: int
  targetIndex :: "int option"
  targetSetIndex :: "int option"
  mySetIndex :: "int option"
  jsnStack :: "nat option"

datatype MultiplayerRole = HOST | JOINER

record game_state =
  players :: "player list"
  activePlayerIndex :: int
  deck :: "card list"
  discardPile :: "card list"
  phase :: GamePhase
  actionsRemaining :: int
  logs :: "string list"
  winner :: "string option"
  multiplayerRole :: "MultiplayerRole option"
  pendingAction :: "pending_action option"

fun SET_LIMITS :: "PropertyColor \<Rightarrow> nat" where
  "SET_LIMITS BROWN = 2"
| "SET_LIMITS LIGHT_BLUE = 3"
| "SET_LIMITS PINK = 3"
| "SET_LIMITS ORANGE = 3"
| "SET_LIMITS RED = 3"
| "SET_LIMITS YELLOW = 3"
| "SET_LIMITS GREEN = 3"
| "SET_LIMITS DARK_BLUE = 2"
| "SET_LIMITS RAILROAD = 4"
| "SET_LIMITS UTILITY = 2"
| "SET_LIMITS ANY = 999"

fun RENT_VALUES :: "PropertyColor \<Rightarrow> int list" where
  "RENT_VALUES BROWN = [1, 2]"
| "RENT_VALUES LIGHT_BLUE = [1, 2, 3]"
| "RENT_VALUES PINK = [1, 2, 4]"
| "RENT_VALUES ORANGE = [1, 3, 5]"
| "RENT_VALUES RED = [2, 3, 6]"
| "RENT_VALUES YELLOW = [2, 4, 6]"
| "RENT_VALUES GREEN = [2, 4, 7]"
| "RENT_VALUES DARK_BLUE = [3, 8]"
| "RENT_VALUES RAILROAD = [1, 2, 3, 4]"
| "RENT_VALUES UTILITY = [1, 2]"
| "RENT_VALUES ANY = [0]"

section \<open>The deck (constants.tsx)\<close>

text \<open>
  \<open>createCard\<close>; the random suffix of the id, \<open>Math.random().toString(36).substr(2, 9)\<close>,
  is the first argument.
\<close>

definition createCard ::
  "string \<Rightarrow> string \<Rightarrow> CardType \<Rightarrow> int \<Rightarrow> PropertyColor option \<Rightarrow> string option \<Rightarrow> PropertyColor option \<Rightarrow> card" where
  "createCard rnd nm ty v col desc sec =
     \<lparr>card_id = nm @ ''-'' @ rnd, card_name = nm, card_type = ty, card_value = v,
      card_color = col, card_secondaryColor = sec, card_description = desc\<rparr>"

text \<open>
  \<open>Array(n).fill(null).map(() => createCard(...))\<close>: \<open>n\<close> cards that differ in the random
  suffix of their id only; \<open>k\<close> counts the cards created before.
\<close>

definition copies :: "nat \<Rightarrow> (nat \<Rightarrow> card) \<Rightarrow> nat \<Rightarrow> card list" where
  "copies n mk k = map (\<lambda>i. mk (k + i)) [0..<n]"

text \<open>\<open>INITIAL_DECK\<close>, 90 cards; \<open>rnd i\<close> is the random suffix drawn for the card created as number \<open>i\<close>.\<close>

definition INITIAL_DECK :: "(nat \<Rightarrow> string) \<Rightarrow> card list" where
  "INITIAL_DECK rnd =
     copies 1 (\<lambda>i. createCard (rnd i) ''10M'' MONEY 10 None None None) 0 @
     copies 2 (\<lambda>i. createCard (rnd i) ''5M'' MONEY 5 None None None) 1 @
     copies 3 (\<lambda>i. createCard (rnd i) ''4M'' MONEY 4 None None None) 3 @
     copies 3 (\<lambda>i. createCard (rnd i) ''3M'' MONEY 3 None None None) 6 @
     copies 5 (\<lambda>i. createCard (rnd i) ''2M'' MONEY 2 None None None) 9 @
     copies 6 (\<lambda>i. createCard (rnd i) ''1M'' MONEY 1 None None None) 14 @
     copies 2 (\<lambda>i. createCard (rnd i) ''Deal Breaker'' ACTION 7 None (Some ''Steal a complete set from any player.'') None) 20 @
     copies 3 (\<lambda>i. createCard (rnd i) ''Sly Deal'' ACTION 3 None (Some ''Steal a single property from any player.'') None) 22 @
     copies 3 (\<lambda>i. createCard (rnd i) ''Force Deal'' ACTION 3 None (Some ''Swap a property with another player.'') None) 25 @
     copies 3 (\<lambda>i. createCard (rnd i) ''Just Say No'' ACTION 4 None (Some ''Counter any action card.'') None) 28 @
     copies 3 (\<lambda>i. createCard (rnd i) ''Debt Collector'' ACTION 3 None (Some ''Collect 5M from one player.'') None) 31 @
     copies 3 (\<lambda>i. createCard (rnd i) ''It's My Birthday'' ACTION 2 None (Some ''Collect 2M from all players.'') None) 34 @
     copies 10 (\<lambda>i. createCard (rnd i) ''Pass Go'' ACTION 1 None (Some ''Draw 2 extra cards.'') None) 37 @
     [createCard (rnd 47) ''Rent (Brown/L.Blue)'' RENT 1 (Some BROWN) (Some ''Collect rent for Brown or Light Blue sets.'') (Some LIGHT_BLUE)] @
     [createCard (rnd 48) ''Rent (Brown/L.Blue)'' RENT 1 (Some BROWN) (Some ''Collect rent for Brown or Light Blue sets.'') (Some LIGHT_BLUE)] @
     [createCard (rnd 49) ''Rent (Pink/Orange)'' RENT 1 (Some PINK) (Some ''Collect rent for Pink or Orange sets.'') (Some ORANGE)] @
     [createCard (rnd 50) ''Rent (Pink/Orange)'' RENT 1 (Some PINK) (Some ''Collect rent for Pink or Orange sets.'') (Some ORANGE)] @
     [createCard (rnd 51) ''Rent (Red/Yellow)'' RENT 1 (Some RED) (Some ''Collect rent for Red or Yellow sets.'') (Some YELLOW)] @
     [createCard (rnd 52) ''Rent (Red/Yellow)'' RENT 1 (Some RED) (Some ''Collect rent for Red or Yellow sets.'') (Some YELLOW)] @
     [createCard (rnd 53) ''Rent (Green/D.Blue)'' RENT 1 (Some GREEN) (Some ''Collect rent for Green or Dark Blue sets.'') (Some DARK_BLUE)] @
     [createCard (rnd 54) ''Rent (Green/D.Blue)'' RENT 1 (Some GREEN) (Some ''Collect rent for Green or Dark Blue sets.'') (Some DARK_BLUE)] @
     [createCard (rnd 55) ''Rent (Rail/Util)'' RENT 1 (Some RAILROAD) (Some ''Collect rent for Railroad or Utility sets.'') (Some UTILITY)] @
     [createCard (rnd 56) ''Rent (Rail/Util)'' RENT 1 (Some RAILROAD) (Some ''Collect rent for Railroad or Utility sets.'') (Some UTILITY)] @
     copies 3 (\<lambda>i. createCard (rnd i) ''Any Rent'' RENT 3 (Some ANY) (Some ''Collect rent for ANY color set.'') None) 57 @
     copies 2 (\<lambda>i. createCard (rnd i) ''Old Kent Road'' PROPERTY 1 (Some BROWN) None None) 60 @
     copies 3 (\<lambda>i. createCard (rnd i) ''The Angel Islington'' PROPERTY 1 (Some LIGHT_BLUE) None None) 62 @
     copies 3 (\<lambda>i. createCard (rnd i) ''Whitehall'' PROPERTY 2 (Some PINK) None None) 65 @
     copies 3 (\<lambda>i. createCard (rnd i) ''Bow Street'' PROPERTY 2 (Some ORANGE) None None) 68 @
     copies 3 (\<lambda>i. createCard (rnd i) ''Fleet Street'' PROPERTY 3 (Some RED) None None) 71 @
     copies 3 (\<lambda>i. createCard (rnd i) ''Leicester Square'' PROPERTY 3 (Some YELLOW) None None) 74 @
     copies 3 (\<lambda>i. createCard (rnd i) ''Bond Street'' PROPERTY 4 (Some GREEN) None None) 77 @
     copies 2 (\<lambda>i. createCard (rnd i) ''Park Lane'' PROPERTY 4 (Some DARK_BLUE) None None) 80 @
     copies 4 (\<lambda>i. createCard (rnd i) ''King's Cross Station'' PROPERTY 2 (Some RAILROAD) None None) 82 @
     copies 2 (\<lambda>i. createCard (rnd i) ''Water Works'' PROPERTY 2 (Some UTILITY) None None) 86 @
     [createCard (rnd 88) ''Dark Blue/Green Wild'' WILD 4 (Some DARK_BLUE) (Some ''Use as Dark Blue or Green property.'') (Some GREEN)] @
     [createCard (rnd 89) ''Light Blue/Brown Wild'' WILD 1 (Some LIGHT_BLUE) (Some ''Use as Light Blue or Brown property.'') (Some BROWN)]"

section \<open>JavaScript helpers\<close>

text \<open>Reading a property of \<open>undefined\<close> throws; that is the only exception of the engine.\<close>

datatype error = TypeError

text \<open>\<open>arr[i]\<close>: \<open>undefined\<close> outside the array.\<close>

definition at_index :: "'a list \<Rightarrow> int \<Rightarrow> 'a option" where
  "at_index xs i = (if 0 \<le> i \<and> i < int (length xs) then Some (xs ! nat i) else None)"

text \<open>\<open>arr.findIndex(P)\<close>, with \<open>None\<close> for -1; \<open>arr.find(P)\<close> is the element there.\<close>

fun findIndex :: "('a \<Rightarrow> bool) \<Rightarrow> 'a list \<Rightarrow> nat option" where
  "findIndex P [] = None"
| "findIndex P (x # xs) = (if P x then Some 0 else map_option Suc (findIndex P xs))"

text \<open>\<open>arr.splice(i, 1)\<close> at an index inside the array.\<close>

definition splice1 :: "nat \<Rightarrow> 'a list \<Rightarrow> 'a list" where
  "splice1 i xs = take i xs @ drop (Suc i) xs"

text \<open>Number to string inside a template literal, for integers.\<close>

fun digits :: "nat \<Rightarrow> string" where
  "digits n =
     (if n < 10 then [''0123456789'' ! n] else digits (n div 10) @ [''0123456789'' ! (n mod 10)])"

declare digits.simps [simp del]

definition show_int :: "int \<Rightarrow> string" where
  "show_int i = (if i < 0 then CHR ''-'' # digits (nat (- i)) else digits (nat i))"

fun color_name :: "PropertyColor \<Rightarrow> string" where
  "color_name BROWN = ''BROWN''"
| "color_name LIGHT_BLUE = ''LIGHT_BLUE''"
| "color_name PINK = ''PINK''"
| "color_name ORANGE = ''ORANGE''"
| "color_name RED = ''RED''"
| "color_name YELLOW = ''YELLOW''"
| "color_name GREEN = ''GREEN''"
| "color_name DARK_BLUE = ''DARK_BLUE''"
| "color_name RAILROAD = ''RAILROAD''"
| "color_name UTILITY = ''UTILITY''"
| "color_name ANY = ''ANY''"

section \<open>Settlement: processPayment\<close>

text \<open>
  \<open>processPayment(fromPlayer, toPlayer, amount, log)\<close> mutates both players and the log.
  The two players are distinct objects at every call site (indices \<open>i\<close> and \<open>1 - i\<close>), so
  the mutable variables of the function are threaded as one record.
\<close>

record payment =
  fromPlayer :: player
  toPlayer :: player
  remaining :: int
  log_p :: "string list"

text \<open>\<open>card.color || 'ANY'\<close>\<close>

definition targetColorOf :: "card \<Rightarrow> PropertyColor" where
  "targetColorOf c = (case card_color c of Some col \<Rightarrow> col | None \<Rightarrow> ANY)"

text \<open>
  \<open>target.cards.push(c); target.isComplete = target.cards.length >= SET_LIMITS[target.color]\<close>
  on the set at index \<open>i\<close>.
\<close>

definition pushToSet :: "property_set list \<Rightarrow> nat \<Rightarrow> card \<Rightarrow> property_set list" where
  "pushToSet ps i c =
     ps[i := (ps ! i)\<lparr>cards := cards (ps ! i) @ [c],
                      isComplete := (SET_LIMITS (color (ps ! i)) \<le> length (cards (ps ! i) @ [c]))\<rparr>]"

text \<open>
  \<open>ps.push({color, cards: [], isComplete: false})\<close> followed by the push of \<open>c\<close> into it.
\<close>

definition pushNewSet :: "property_set list \<Rightarrow> PropertyColor \<Rightarrow> card \<Rightarrow> property_set list" where
  "pushNewSet ps col c =
     ps @ [\<lparr>color = col, cards = [c], isComplete = (SET_LIMITS col \<le> length [c])\<rparr>]"

text \<open>
  \<open>const card = set.cards.pop()\<close> at index \<open>i\<close> of a player's sets, then the clean-up:
  the emptied set is spliced out, any other set is marked incomplete.
\<close>

definition popFromSet :: "property_set list \<Rightarrow> nat \<Rightarrow> property_set list" where
  "popFromSet ps i =
     (if butlast (cards (ps ! i)) = [] then splice1 i ps
      else ps[i := (ps ! i)\<lparr>cards := butlast (cards (ps ! i)), isComplete := False\<rparr>])"

text \<open>Body of the first loop (lines 175-181); it runs only on a non-empty bank.\<close>

definition bankStep :: "payment \<Rightarrow> payment" where
  "bankStep st =
     (case bank (fromPlayer st) of
        [] \<Rightarrow> st
      | c # rest \<Rightarrow>
          let remaining' = remaining st - card_value c;
              log1 = (player_name (fromPlayer st) @ '' paid '' @ card_name c @ '' (''
                        @ show_int (card_value c) @ ''M) from bank.'') # log_p st
          in st\<lparr>fromPlayer := (fromPlayer st)\<lparr>bank := rest\<rparr>,
                toPlayer := (toPlayer st)\<lparr>bank := bank (toPlayer st) @ [c]\<rparr>,
                remaining := remaining',
                log_p := (if remaining' < 0
                        then ''Note: No change is given in MonoDeal!'' # log1 else log1)\<rparr>)"

definition bankCond :: "payment \<Rightarrow> bool" where
  "bankCond st = (0 < remaining st \<and> 0 < length (bank (fromPlayer st)))"

function bankLoop :: "payment \<Rightarrow> payment" where
  "bankLoop st = (if bankCond st then bankLoop (bankStep st) else st)"
  by pat_completeness auto
termination
  by (relation "measure (\<lambda>st. length (bank (fromPlayer st)))")
     (auto simp: bankCond_def bankStep_def Let_def split: list.splits)

declare bankLoop.simps [simp del]

text \<open>
  Body of the second loop (lines 186-207). \<open>None\<close> is the \<open>break\<close> taken when no set
  holds a card.
\<close>

definition propertyStep :: "payment \<Rightarrow> payment option" where
  "propertyStep st =
     (case findIndex (\<lambda>p. 0 < length (cards p)) (properties (fromPlayer st)) of
        None \<Rightarrow> None
      | Some setIdx \<Rightarrow>
          let c = last (cards (properties (fromPlayer st) ! setIdx));
              fromProps = popFromSet (properties (fromPlayer st)) setIdx;
              targetColor = targetColorOf c;
              toProps = (case findIndex (\<lambda>p. color p = targetColor) (properties (toPlayer st)) of
                           None \<Rightarrow> pushNewSet (properties (toPlayer st)) targetColor c
                         | Some j \<Rightarrow> pushToSet (properties (toPlayer st)) j c)
          in Some (st\<lparr>fromPlayer := (fromPlayer st)\<lparr>properties := fromProps\<rparr>,
                      toPlayer := (toPlayer st)\<lparr>properties := toProps\<rparr>,
                      remaining := remaining st - card_value c,
                      log_p := (player_name (fromPlayer st) @ '' surrendered property ''
                                @ card_name c @ '' to settle debt.'') # log_p st\<rparr>))"

definition propertyCond :: "payment \<Rightarrow> bool" where
  "propertyCond st = (0 < remaining st \<and> 0 < length (properties (fromPlayer st)))"

text \<open>The number of cards in a list of property sets.\<close>

definition setCards :: "property_set list \<Rightarrow> nat" where
  "setCards ps = sum_list (map (\<lambda>p. length (cards p)) ps)"

lemma findIndex_Some:
  "findIndex P xs = Some i \<Longrightarrow> i < length xs \<and> P (xs ! i) \<and> (\<forall>j<i. \<not> P (xs ! j))"
proof (induction xs arbitrary: i)
  case Nil
  then show ?case by simp
next
  case (Cons x xs)
  show ?case
  proof (cases "P x")
    case True
    with Cons.prems show ?thesis by simp
  next
    case False
    with Cons.prems obtain k where k: "findIndex P xs = Some k" "i = Suc k"
      by auto
    from Cons.IH [OF k(1)] False k(2) show ?thesis
      by (auto simp: less_Suc_eq_0_disj)
  qed
qed

lemma findIndex_None: "findIndex P xs = None \<longleftrightarrow> (\<forall>x \<in> set xs. \<not> P x)"
  by (induction xs) auto

lemma setCards_update:
  "i < length ps \<Longrightarrow>
   setCards (ps[i := q]) + length (cards (ps ! i)) = setCards ps + length (cards q)"
  unfolding setCards_def
proof (induction ps arbitrary: i)
  case Nil
  then show ?case by simp
next
  case (Cons p ps)
  then show ?case by (cases i) auto
qed

lemma setCards_splice1:
  "i < length ps \<Longrightarrow> setCards (splice1 i ps) + length (cards (ps ! i)) = setCards ps"
  unfolding setCards_def splice1_def
proof (induction ps arbitrary: i)
  case Nil
  then show ?case by simp
next
  case (Cons p ps)
  show ?case
  proof (cases i)
    case 0
    then show ?thesis by simp
  next
    case (Suc k)
    with Cons.prems have "k < length ps" by simp
    from Cons.IH [OF this] Suc show ?thesis by simp
  qed
qed

lemma setCards_popFromSet:
  assumes "i < length ps" and "cards (ps ! i) \<noteq> []"
  shows "Suc (setCards (popFromSet ps i)) = setCards ps"
proof -
  from assms(2) have len: "length (cards (ps ! i)) = Suc (length (butlast (cards (ps ! i))))"
    by (cases "cards (ps ! i)" rule: rev_cases) auto
  show ?thesis
  proof (cases "butlast (cards (ps ! i)) = []")
    case True
    with len setCards_splice1 [OF assms(1)] show ?thesis
      by (simp add: popFromSet_def)
  next
    case False
    with len
      setCards_update [OF assms(1),
        of "(ps ! i)\<lparr>cards := butlast (cards (ps ! i)), isComplete := False\<rparr>"]
    show ?thesis
      by (simp add: popFromSet_def)
  qed
qed

lemma propertyStep_decreases:
  assumes "propertyStep st = Some st'"
  shows "Suc (setCards (properties (fromPlayer st'))) = setCards (properties (fromPlayer st))"
proof -
  from assms obtain i where i: "findIndex (\<lambda>p. 0 < length (cards p)) (properties (fromPlayer st)) = Some i"
    by (auto simp: propertyStep_def split: option.splits)
  from findIndex_Some [OF i] have "i < length (properties (fromPlayer st))"
    and "cards (properties (fromPlayer st) ! i) \<noteq> []" by auto
  from setCards_popFromSet [OF this] assms i show ?thesis
    by (auto simp: propertyStep_def Let_def)
qed

function propertyLoop :: "payment \<Rightarrow> payment" where
  "propertyLoop st =
     (if propertyCond st
      then (case propertyStep st of None \<Rightarrow> st | Some st' \<Rightarrow> propertyLoop st')
      else st)"
  by pat_completeness auto
termination
proof (relation "measure (\<lambda>st. setCards (properties (fromPlayer st)))")
  show "wf (measure (\<lambda>st. setCards (properties (fromPlayer st))))" by simp
next
  fix st st'
  assume "propertyCond st" and "propertyStep st = Some st'"
  from propertyStep_decreases [OF this(2)]
  show "(st', st) \<in> measure (\<lambda>st. setCards (properties (fromPlayer st)))" by simp
qed

declare propertyLoop.simps [simp del]

text \<open>
  \<open>fromPlayer.bank.sort((a, b) => a.value - b.value)\<close> is a stable sort by value, as
  \<open>sort_key\<close> is.
\<close>

definition processPayment :: "player \<Rightarrow> player \<Rightarrow> int \<Rightarrow> string list \<Rightarrow> payment" where
  "processPayment fromP toP amount lg =
     propertyLoop (bankLoop \<lparr>fromPlayer = fromP\<lparr>bank := sort_key card_value (bank fromP)\<rparr>,
                             toPlayer = toP, remaining = amount, log_p = lg\<rparr>)"

section \<open>Settlement with a bound on the iterations\<close>

text \<open>
  The two loops again, with the number of passes bounded by \<open>n\<close>: \<open>None\<close> when the loop
  is still running after \<open>n\<close> passes.
\<close>

fun bankIter :: "nat \<Rightarrow> payment \<Rightarrow> payment option" where
  "bankIter 0 st = (if bankCond st then None else Some st)"
| "bankIter (Suc n) st = (if bankCond st then bankIter n (bankStep st) else Some st)"

fun propertyIter :: "nat \<Rightarrow> payment \<Rightarrow> payment option" where
  "propertyIter 0 st =
     (if propertyCond st then (case propertyStep st of None \<Rightarrow> Some st | Some st' \<Rightarrow> None)
      else Some st)"
| "propertyIter (Suc n) st =
     (if propertyCond st
      then (case propertyStep st of None \<Rightarrow> Some st | Some st' \<Rightarrow> propertyIter n st')
      else Some st)"

text \<open>Both loops under one bound, after the sort.\<close>

definition processPaymentIter :: "nat \<Rightarrow> player \<Rightarrow> player \<Rightarrow> int \<Rightarrow> string list \<Rightarrow> payment option" where
  "processPaymentIter n fromP toP amount lg =
     (case bankIter n \<lparr>fromPlayer = fromP\<lparr>bank := sort_key card_value (bank fromP)\<rparr>,
                       toPlayer = toP, remaining = amount, log_p = lg\<rparr> of
        None \<Rightarrow> None
      | Some st \<Rightarrow> propertyIter n st)"

section \<open>Measures of a player's assets\<close>

definition cardsValue :: "card list \<Rightarrow> int" where
  "cardsValue cs = sum_list (map card_value cs)"

definition setsValue :: "property_set list \<Rightarrow> int" where
  "setsValue ps = sum_list (map (\<lambda>p. cardsValue (cards p)) ps)"

definition assetValue :: "player \<Rightarrow> int" where
  "assetValue p = cardsValue (bank p) + setsValue (properties p)"

definition setsCards :: "property_set list \<Rightarrow> card multiset" where
  "setsCards ps = sum_list (map (\<lambda>p. mset (cards p)) ps)"

definition playerCards :: "player \<Rightarrow> card multiset" where
  "playerCards p = mset (hand p) + mset (bank p) + setsCards (properties p)"

section \<open>The engine (App.tsx)\<close>

text \<open>
  The engine lives in a React component. Its state is the \<open>GameState\<close> snapshot (\<open>null\<close>
  before a game is started) and three interaction states that hold a card between the
  move that plays it and the choice of its target. The selection of a card in the hand
  (\<open>selectedCardId\<close>) is display state and is left out.
\<close>

record pending_force_deal =
  fd_card :: card
  fd_mySetIndex :: "int option"

record app =
  gameState :: "game_state option"
  pendingRentCard :: "card option"
  pendingForceDeal :: "pending_force_deal option"
  pendingSlyDeal :: "card option"

datatype MoveType = BANK | PROPERTY_move | ACTION_PLAY

text \<open>Truthiness of a \<open>string | null\<close>: \<open>null\<close> and the empty string are falsy.\<close>

definition truthy :: "string option \<Rightarrow> bool" where
  "truthy w = (case w of None \<Rightarrow> False | Some n \<Rightarrow> n \<noteq> [])"

text \<open>The remainder operator \<open>%\<close> of JavaScript on integers: the sign follows the dividend.\<close>

definition js_rem :: "int \<Rightarrow> int \<Rightarrow> int" where
  "js_rem a b = sgn a * (\<bar>a\<bar> mod \<bar>b\<bar>)"

text \<open>
  \<open>xs[Math.floor(Math.random() * xs.length)]\<close>, with the value \<open>u\<close> of \<open>Math.random()\<close>,
  \<open>0 \<le> u < 1\<close>, as an argument.
\<close>

definition pickRandom :: "real \<Rightarrow> 'a list \<Rightarrow> 'a" where
  "pickRandom u xs = xs ! nat \<lfloor>u * real (length xs)\<rfloor>"

text \<open>
  \<open>ps.map((p, i) => ({p, i})).filter(x => !x.p.isComplete && x.p.cards.length > 0)\<close>,
  of which only the indices are used.
\<close>

definition eligibleIndices :: "property_set list \<Rightarrow> int list" where
  "eligibleIndices ps =
     map snd (filter (\<lambda>(p, i). \<not> isComplete p \<and> 0 < length (cards p))
                (zip ps (map int [0..<length ps])))"

text \<open>
  The players of a state are objects mutated in place; the model writes the changed
  player back at its index.
\<close>

definition setPlayer :: "int \<Rightarrow> player \<Rightarrow> game_state \<Rightarrow> game_state" where
  "setPlayer i p s = s\<lparr>players := (players s)[nat i := p]\<rparr>"

subsection \<open>initializeGame\<close>

text \<open>
  \<open>shuffle\<close> is a Fisher-Yates shuffle driven by \<open>Math.random\<close>; its result, a permutation
  of the deck, is the argument \<open>shuffled\<close>.
\<close>

definition initializeGame :: "bool \<Rightarrow> bool \<Rightarrow> card list \<Rightarrow> app \<Rightarrow> app" where
  "initializeGame vsAI isMultiplayer shuffled a =
     a\<lparr>gameState := Some
        \<lparr>players =
           [\<lparr>player_id = ''p1'', player_name = (if isMultiplayer then ''Host'' else ''Player 1''),
             hand = take 5 shuffled, bank = [], properties = [], isAI = False\<rparr>,
            \<lparr>player_id = ''p2'',
             player_name = (if vsAI then ''Gemini AI''
                            else if isMultiplayer then ''Guest'' else ''Player 2''),
             hand = take 5 (drop 5 shuffled), bank = [], properties = [], isAI = vsAI\<rparr>],
         activePlayerIndex = 0,
         deck = drop 5 (drop 5 shuffled),
         discardPile = [],
         phase = START_TURN,
         actionsRemaining = 3,
         logs = [''Game started! Master the market.''],
         winner = None,
         multiplayerRole = (if isMultiplayer then Some HOST else None),
         pendingAction = None\<rparr>\<rparr>"

text \<open>The component before any game: every state is \<open>null\<close>.\<close>

definition initialApp :: app where
  "initialApp = \<lparr>gameState = None, pendingRentCard = None, pendingForceDeal = None,
                 pendingSlyDeal = None\<rparr>"

subsection \<open>checkWinCondition\<close>

text \<open>No caller uses the boolean result; the model returns the state.\<close>

definition checkWinCondition :: "game_state \<Rightarrow> error + game_state" where
  "checkWinCondition s =
     (case at_index (players s) (activePlayerIndex s) of
        None \<Rightarrow> Inl TypeError
      | Some p \<Rightarrow>
          if 3 \<le> length (filter isComplete (properties p))
          then Inr (s\<lparr>winner := Some (player_name p), phase := GAME_OVER\<rparr>)
          else Inr s)"

text \<open>The end of an updater that checks for a win and returns the new snapshot.\<close>

definition checked :: "app \<Rightarrow> game_state \<Rightarrow> error + app" where
  "checked a s =
     (case checkWinCondition s of
        Inl e \<Rightarrow> Inl e
      | Inr s' \<Rightarrow> Inr (a\<lparr>gameState := Some s'\<rparr>))"

subsection \<open>handleRentCollection\<close>

definition handleRentCollection :: "int \<Rightarrow> app \<Rightarrow> error + app" where
  "handleRentCollection setIndex a =
     (case (pendingRentCard a, gameState a) of
        (Some rentCard, Some prev) \<Rightarrow>
          (case (at_index (players prev) (activePlayerIndex prev),
                 at_index (players prev) (1 - activePlayerIndex prev)) of
             (Some p, Some opponent) \<Rightarrow>
               (case at_index (properties p) setIndex of
                  None \<Rightarrow> Inl TypeError
                | Some targetSet \<Rightarrow>
                    let rentArr = RENT_VALUES (color targetSet);
                        count = min (length (cards targetSet)) (length rentArr);
                        rentVal = (case at_index rentArr (int count - 1) of
                                     None \<Rightarrow> 0 | Some v \<Rightarrow> v);
                        lg = (player_name p @ '' collected '' @ show_int rentVal
                                @ ''M rent for '' @ color_name (color targetSet) @ '' set.'')
                             # logs prev;
                        pay = processPayment opponent p rentVal lg;
                        s1 = setPlayer (1 - activePlayerIndex prev) (fromPlayer pay)
                               (setPlayer (activePlayerIndex prev) (toPlayer pay) prev);
                        s2 = s1\<lparr>logs := log_p pay,
                                 discardPile := discardPile prev @ [rentCard],
                                 actionsRemaining := actionsRemaining prev - 1\<rparr>
                    in checked (a\<lparr>pendingRentCard := None\<rparr>) s2)
           | _ \<Rightarrow> Inl TypeError)
      | _ \<Rightarrow> Inr a)"

subsection \<open>resolvePendingAction\<close>

text \<open>The helper \<open>placeCard\<close> of the Force Deal branch (lines 303-314).\<close>

definition placeCard :: "player \<Rightarrow> card \<Rightarrow> player" where
  "placeCard p c =
     (let targetColor = targetColorOf c;
          t1 = findIndex (\<lambda>s. color s = targetColor \<and> \<not> isComplete s) (properties p);
          t2 = (if t1 = None \<and> card_secondaryColor c \<noteq> None
                then findIndex (\<lambda>s. Some (color s) = card_secondaryColor c \<and> \<not> isComplete s)
                       (properties p)
                else t1);
          t3 = (if t2 = None then findIndex (\<lambda>s. color s = targetColor) (properties p) else t2)
      in case t3 of
           None \<Rightarrow> p\<lparr>properties := pushNewSet (properties p) targetColor c\<rparr>
         | Some i \<Rightarrow> p\<lparr>properties := pushToSet (properties p) i c\<rparr>)"

text \<open>The placement written out in the Sly Deal branch (lines 332-340).\<close>

definition giveToAttacker :: "player \<Rightarrow> card \<Rightarrow> player" where
  "giveToAttacker p c =
     (let targetColor = targetColorOf c;
          t1 = findIndex (\<lambda>s. color s = targetColor \<and> \<not> isComplete s) (properties p);
          t2 = (if t1 = None \<and> card_secondaryColor c \<noteq> None
                then findIndex (\<lambda>s. Some (color s) = card_secondaryColor c \<and> \<not> isComplete s)
                       (properties p)
                else t1)
      in case t2 of
           None \<Rightarrow> p\<lparr>properties := pushNewSet (properties p) targetColor c\<rparr>
         | Some i \<Rightarrow> p\<lparr>properties := pushToSet (properties p) i c\<rparr>)"

text \<open>
  The effect of an unblocked action (lines 283-361), on the copy of the state. The attacker and
  the opponent are read where the source first reads a property of them.
\<close>

definition forceDealEffect :: "game_state \<Rightarrow> pending_action \<Rightarrow> error + game_state" where
  "forceDealEffect s pa =
     (case (mySetIndex pa, targetSetIndex pa) of
        (Some mi, Some ti) \<Rightarrow>
          (case (at_index (players s) (attackerIndex pa),
                 at_index (players s) (1 - attackerIndex pa)) of
             (Some attacker, Some opponent) \<Rightarrow>
               (case (at_index (properties attacker) mi, at_index (properties opponent) ti) of
                  (Some mySet, Some oppSet) \<Rightarrow>
                    if 0 < length (cards mySet) \<and> 0 < length (cards oppSet)
                    then
                      let myCard = last (cards mySet);
                          oppCard = last (cards oppSet);
                          attacker1 = attacker\<lparr>properties := popFromSet (properties attacker) (nat mi)\<rparr>;
                          opponent1 = opponent\<lparr>properties := popFromSet (properties opponent) (nat ti)\<rparr>;
                          attacker2 = placeCard attacker1 oppCard;
                          opponent2 = placeCard opponent1 myCard
                      in Inr ((setPlayer (1 - attackerIndex pa) opponent2
                                 (setPlayer (attackerIndex pa) attacker2 s))
                              \<lparr>logs := (player_name attacker @ '' played Force Deal: Swapped ''
                                          @ card_name myCard @ '' for '' @ card_name oppCard @ ''.'')
                                        # logs s\<rparr>)
                    else Inr s
                | _ \<Rightarrow> Inr s)
           | _ \<Rightarrow> Inl TypeError)
      | _ \<Rightarrow> Inr s)"

definition slyDealEffect :: "game_state \<Rightarrow> pending_action \<Rightarrow> error + game_state" where
  "slyDealEffect s pa =
     (case targetSetIndex pa of
        None \<Rightarrow> Inr s
      | Some ti \<Rightarrow>
          (case (at_index (players s) (attackerIndex pa),
                 at_index (players s) (1 - attackerIndex pa)) of
             (Some attacker, Some opponent) \<Rightarrow>
               (case at_index (properties opponent) ti of
                  Some targetSet \<Rightarrow>
                    if \<not> isComplete targetSet \<and> 0 < length (cards targetSet)
                    then
                      let stolen = last (cards targetSet);
                          opponent1 = opponent\<lparr>properties := popFromSet (properties opponent) (nat ti)\<rparr>;
                          attacker1 = giveToAttacker attacker stolen
                      in Inr ((setPlayer (1 - attackerIndex pa) opponent1
                                 (setPlayer (attackerIndex pa) attacker1 s))
                              \<lparr>logs := (player_name attacker @ '' stole '' @ card_name stolen
                                          @ '' with Sly Deal.'') # logs s\<rparr>)
                    else Inr (s\<lparr>logs := (player_name attacker
                                           @ '' tried Sly Deal but target was invalid.'') # logs s\<rparr>)
                | None \<Rightarrow>
                    Inr (s\<lparr>logs := (player_name attacker
                                      @ '' tried Sly Deal but target was invalid.'') # logs s\<rparr>))
           | _ \<Rightarrow> Inl TypeError))"

definition dealBreakerEffect :: "game_state \<Rightarrow> pending_action \<Rightarrow> error + game_state" where
  "dealBreakerEffect s pa =
     (case at_index (players s) (1 - attackerIndex pa) of
        None \<Rightarrow> Inl TypeError
      | Some opponent \<Rightarrow>
          (case findIndex isComplete (properties opponent) of
             None \<Rightarrow> Inr s
           | Some k \<Rightarrow>
               (case at_index (players s) (attackerIndex pa) of
                  None \<Rightarrow> Inl TypeError
                | Some attacker \<Rightarrow>
                    let targetSet = properties opponent ! k;
                        opponent1 = opponent\<lparr>properties := splice1 k (properties opponent)\<rparr>;
                        attacker1 = attacker\<lparr>properties := properties attacker @ [targetSet]\<rparr>
                    in Inr ((setPlayer (1 - attackerIndex pa) opponent1
                               (setPlayer (attackerIndex pa) attacker1 s))
                            \<lparr>logs := (player_name attacker @ '' played Deal Breaker: Stole a complete ''
                                        @ color_name (color targetSet) @ '' set!'') # logs s\<rparr>))))"

definition paymentEffect :: "int \<Rightarrow> (string \<Rightarrow> string \<Rightarrow> string) \<Rightarrow> game_state \<Rightarrow> pending_action
    \<Rightarrow> error + game_state" where
  "paymentEffect amount msg s pa =
     (case (at_index (players s) (attackerIndex pa),
            at_index (players s) (1 - attackerIndex pa)) of
        (Some attacker, Some opponent) \<Rightarrow>
          let pay = processPayment opponent attacker amount
                      (msg (player_name attacker) (player_name opponent) # logs s)
          in Inr ((setPlayer (1 - attackerIndex pa) (fromPlayer pay)
                     (setPlayer (attackerIndex pa) (toPlayer pay) s))\<lparr>logs := log_p pay\<rparr>)
      | _ \<Rightarrow> Inl TypeError)"

definition applyEffect :: "game_state \<Rightarrow> pending_action \<Rightarrow> error + game_state" where
  "applyEffect s pa =
     (case pa_type pa of
        FORCE_DEAL \<Rightarrow> forceDealEffect s pa
      | SLY_DEAL \<Rightarrow> slyDealEffect s pa
      | DEAL_BREAKER \<Rightarrow> dealBreakerEffect s pa
      | DEBT_COLLECTOR \<Rightarrow>
          paymentEffect 5 (\<lambda>att opp. att @ '' used Debt Collector: '' @ opp @ '' owes 5M.'') s pa
      | BIRTHDAY \<Rightarrow>
          paymentEffect 2 (\<lambda>att opp. att @ '' used It's My Birthday! '' @ opp @ '' owes 2M.'') s pa
      | RENT_ALL \<Rightarrow> Inr s)"

text \<open>The blocked outcome (lines 273-280).\<close>

definition blockedOutcome :: "game_state \<Rightarrow> pending_action \<Rightarrow> game_state" where
  "blockedOutcome s pa =
     s\<lparr>logs := (''Action '' @ card_name (pa_card pa) @ '' blocked by Just Say No.'') # logs s,
       discardPile := discardPile s @ [pa_card pa],
       pendingAction := None,
       actionsRemaining := actionsRemaining s - 1\<rparr>"

text \<open>The end of an executed action (lines 363-366), before the check for a win.\<close>

definition executedOutcome :: "game_state \<Rightarrow> pending_action \<Rightarrow> game_state" where
  "executedOutcome s pa =
     s\<lparr>discardPile := discardPile s @ [pa_card pa],
       actionsRemaining := actionsRemaining s - 1,
       pendingAction := None\<rparr>"

text \<open>
  \<open>jsnStack || 0\<close>, and the player whose turn it is to respond (lines 245-251): the
  defender on an even stack, the attacker on an odd one.
\<close>

definition currentJsnStack :: "pending_action \<Rightarrow> nat" where
  "currentJsnStack pa = (case jsnStack pa of None \<Rightarrow> 0 | Some n \<Rightarrow> n)"

definition responderIndex :: "pending_action \<Rightarrow> int" where
  "responderIndex pa =
     (let isDefenderTurn = (currentJsnStack pa mod 2 = 0)
      in if isDefenderTurn then 1 - attackerIndex pa else attackerIndex pa)"

text \<open>What follows a response that plays no counter (lines 269-368).\<close>

definition finalResponse :: "app \<Rightarrow> game_state \<Rightarrow> pending_action \<Rightarrow> error + app" where
  "finalResponse a prev pa =
     (let actionBlocked = (currentJsnStack pa mod 2 = 1)
      in if actionBlocked
         then Inr (a\<lparr>gameState := Some (blockedOutcome prev pa)\<rparr>)
         else (case applyEffect prev pa of
                 Inl e \<Rightarrow> Inl e
               | Inr s \<Rightarrow> checked a (executedOutcome s pa)))"

definition resolvePendingAction :: "bool \<Rightarrow> app \<Rightarrow> error + app" where
  "resolvePendingAction useJSN a =
     (case gameState a of
        None \<Rightarrow> Inr a
      | Some prev \<Rightarrow>
          (case pendingAction prev of
             None \<Rightarrow> Inr a
           | Some pa \<Rightarrow>
               if useJSN
               then (case at_index (players prev) (responderIndex pa) of
                       None \<Rightarrow> Inl TypeError
                     | Some p \<Rightarrow>
                         (case findIndex (\<lambda>c. card_name c = ''Just Say No'') (hand p) of
                            Some jsnIndex \<Rightarrow>
                              Inr (a\<lparr>gameState := Some
                                ((setPlayer (responderIndex pa)
                                    (p\<lparr>hand := splice1 jsnIndex (hand p)\<rparr>) prev)
                                   \<lparr>discardPile := discardPile prev @ [hand p ! jsnIndex],
                                    pendingAction :=
                                      Some (pa\<lparr>jsnStack := Some (currentJsnStack pa + 1)\<rparr>),
                                    logs := (player_name p @ '' used JUST SAY NO! (Chain: ''
                                               @ show_int (int (currentJsnStack pa + 1)) @ '')'')
                                            # logs prev\<rparr>)\<rparr>)
                          | None \<Rightarrow> finalResponse a prev pa))
               else finalResponse a prev pa))"

subsection \<open>initiateForceDeal, initiateSlyDeal and the choice of the own set\<close>

text \<open>
  Both handlers clear their interaction state after the update, whatever the updater did.
\<close>

definition initiateForceDeal :: "int \<Rightarrow> app \<Rightarrow> app" where
  "initiateForceDeal ti a =
     (case (gameState a, pendingForceDeal a) of
        (Some prev, Some fd) \<Rightarrow>
          (case fd_mySetIndex fd of
             None \<Rightarrow> a\<lparr>pendingForceDeal := None\<rparr>
           | Some mi \<Rightarrow>
               a\<lparr>gameState := Some (prev\<lparr>pendingAction := Some
                    \<lparr>pa_type = FORCE_DEAL, pa_card = fd_card fd,
                     attackerIndex = activePlayerIndex prev, targetIndex = None,
                     targetSetIndex = Some ti, mySetIndex = Some mi, jsnStack = Some 0\<rparr>\<rparr>),
                 pendingForceDeal := None\<rparr>)
      | _ \<Rightarrow> a\<lparr>pendingForceDeal := None\<rparr>)"

definition initiateSlyDeal :: "int \<Rightarrow> app \<Rightarrow> app" where
  "initiateSlyDeal ti a =
     (case (gameState a, pendingSlyDeal a) of
        (Some prev, Some c) \<Rightarrow>
          a\<lparr>gameState := Some (prev\<lparr>pendingAction := Some
               \<lparr>pa_type = SLY_DEAL, pa_card = c,
                attackerIndex = activePlayerIndex prev, targetIndex = None,
                targetSetIndex = Some ti, mySetIndex = None, jsnStack = Some 0\<rparr>\<rparr>),
            pendingSlyDeal := None\<rparr>
      | _ \<Rightarrow> a\<lparr>pendingSlyDeal := None\<rparr>)"

text \<open>
  \<open>setPendingForceDeal(prev => ({...prev!, mySetIndex: i}))\<close>, the click on an own set
  while a Force Deal waits for its source (line 988).
\<close>

definition selectMySet :: "int \<Rightarrow> app \<Rightarrow> app" where
  "selectMySet i a =
     (case pendingForceDeal a of
        None \<Rightarrow> a
      | Some fd \<Rightarrow> a\<lparr>pendingForceDeal := Some (fd\<lparr>fd_mySetIndex := Some i\<rparr>)\<rparr>)"

subsection \<open>executeMove\<close>

text \<open>\<open>case 'BANK'\<close>\<close>

definition moveBank :: "game_state \<Rightarrow> player \<Rightarrow> nat \<Rightarrow> card \<Rightarrow> game_state" where
  "moveBank s p cardIndex c =
     (setPlayer (activePlayerIndex s)
        (p\<lparr>hand := splice1 cardIndex (hand p), bank := bank p @ [c]\<rparr>) s)
     \<lparr>logs := (player_name p @ '' banked '' @ card_name c @ '' ('' @ show_int (card_value c)
                 @ ''M).'') # logs s,
      actionsRemaining := actionsRemaining s - 1\<rparr>"

text \<open>\<open>case 'PROPERTY'\<close>, after the check of the card type\<close>

definition moveProperty :: "game_state \<Rightarrow> player \<Rightarrow> nat \<Rightarrow> card \<Rightarrow> game_state" where
  "moveProperty s p cardIndex c =
     (let col = targetColorOf c;
          props = (case findIndex (\<lambda>q. color q = col) (properties p) of
                     None \<Rightarrow> pushNewSet (properties p) col c
                   | Some j \<Rightarrow> pushToSet (properties p) j c)
      in (setPlayer (activePlayerIndex s)
            (p\<lparr>hand := splice1 cardIndex (hand p), properties := props\<rparr>) s)
         \<lparr>logs := (player_name p @ '' deployed '' @ card_name c @ ''.'') # logs s,
          actionsRemaining := actionsRemaining s - 1\<rparr>)"

text \<open>The state with the played card taken out of the hand.\<close>

definition removeFromHand :: "game_state \<Rightarrow> player \<Rightarrow> nat \<Rightarrow> game_state" where
  "removeFromHand s p cardIndex =
     setPlayer (activePlayerIndex s) (p\<lparr>hand := splice1 cardIndex (hand p)\<rparr>) s"

text \<open>The card of an automated player that finds no target (lines 473-475 and 499-501).\<close>

definition wasted :: "string \<Rightarrow> card \<Rightarrow> game_state \<Rightarrow> game_state" where
  "wasted msg c s =
     s\<lparr>logs := msg # logs s, discardPile := discardPile s @ [c],
       actionsRemaining := actionsRemaining s - 1\<rparr>"

definition newPending :: "PendingType \<Rightarrow> card \<Rightarrow> int \<Rightarrow> int option \<Rightarrow> int option \<Rightarrow> pending_action" where
  "newPending ty c att mi ti =
     \<lparr>pa_type = ty, pa_card = c, attackerIndex = att, targetIndex = None,
      targetSetIndex = ti, mySetIndex = mi, jsnStack = Some 0\<rparr>"

text \<open>\<open>if (card.name === 'Force Deal')\<close>; \<open>u1\<close> and \<open>u2\<close> are the two values of \<open>Math.random()\<close>.\<close>

definition playForceDeal ::
  "real \<Rightarrow> real \<Rightarrow> app \<Rightarrow> game_state \<Rightarrow> player \<Rightarrow> nat \<Rightarrow> card \<Rightarrow> error + app" where
  "playForceDeal u1 u2 a prev p cardIndex c =
     (let s = removeFromHand prev p cardIndex
      in if isAI p
         then (case at_index (players prev) (1 - activePlayerIndex prev) of
                 None \<Rightarrow> Inl TypeError
               | Some opponent \<Rightarrow>
                   let myIndices = eligibleIndices (properties p);
                       oppIndices = eligibleIndices (properties opponent)
                   in if 0 < length myIndices \<and> 0 < length oppIndices
                      then Inr (a\<lparr>gameState := Some (s\<lparr>pendingAction := Some
                             (newPending FORCE_DEAL c (activePlayerIndex prev)
                                (Some (pickRandom u1 myIndices)) (Some (pickRandom u2 oppIndices)))\<rparr>)\<rparr>)
                      else Inr (a\<lparr>gameState := Some
                             (wasted ''AI tried Force Deal but had no valid targets. Card wasted.'' c s)\<rparr>))
         else Inr (a\<lparr>gameState := Some s,
                     pendingForceDeal := Some \<lparr>fd_card = c, fd_mySetIndex = None\<rparr>\<rparr>))"

text \<open>\<open>if (card.name === 'Sly Deal')\<close>\<close>

definition playSlyDeal :: "real \<Rightarrow> app \<Rightarrow> game_state \<Rightarrow> player \<Rightarrow> nat \<Rightarrow> card \<Rightarrow> error + app" where
  "playSlyDeal u1 a prev p cardIndex c =
     (let s = removeFromHand prev p cardIndex
      in if isAI p
         then (case at_index (players prev) (1 - activePlayerIndex prev) of
                 None \<Rightarrow> Inl TypeError
               | Some opponent \<Rightarrow>
                   let oppIndices = eligibleIndices (properties opponent)
                   in if 0 < length oppIndices
                      then Inr (a\<lparr>gameState := Some (s\<lparr>pendingAction := Some
                             (newPending SLY_DEAL c (activePlayerIndex prev)
                                None (Some (pickRandom u1 oppIndices)))\<rparr>)\<rparr>)
                      else Inr (a\<lparr>gameState := Some
                             (wasted ''AI tried Sly Deal but nothing to steal. Card wasted.'' c s)\<rparr>))
         else Inr (a\<lparr>gameState := Some s, pendingSlyDeal := Some c\<rparr>))"

text \<open>
  The cards that open the counter-play window at once; the type is the name in upper case
  with the first blank replaced by an underscore, \<open>BIRTHDAY\<close> for "It's My Birthday".
\<close>

definition contestedType :: "string \<Rightarrow> PendingType option" where
  "contestedType nm =
     (if nm = ''Deal Breaker'' then Some DEAL_BREAKER
      else if nm = ''Debt Collector'' then Some DEBT_COLLECTOR
      else if nm = ''It's My Birthday'' then Some BIRTHDAY
      else None)"

text \<open>The last branch of \<open>case 'ACTION_PLAY'\<close> (lines 509-533), up to the \<open>break\<close>.\<close>

definition playOther :: "game_state \<Rightarrow> player \<Rightarrow> nat \<Rightarrow> card \<Rightarrow> game_state" where
  "playOther prev p cardIndex c =
     (case contestedType (card_name c) of
        Some ty \<Rightarrow>
          (removeFromHand prev p cardIndex)
            \<lparr>pendingAction := Some (newPending ty c (activePlayerIndex prev) None None)\<rparr>
      | None \<Rightarrow>
          (if card_name c = ''Pass Go''
           then (setPlayer (activePlayerIndex prev)
                   (p\<lparr>hand := splice1 cardIndex (hand p) @ take 2 (deck prev)\<rparr>) prev)
                \<lparr>deck := drop 2 (deck prev),
                 logs := (player_name p @ '' played Pass Go: +2 cards.'') # logs prev\<rparr>
           else (removeFromHand prev p cardIndex)
                \<lparr>logs := (player_name p @ '' played '' @ card_name c @ ''.'') # logs prev\<rparr>)
          \<lparr>discardPile := discardPile prev @ [c],
           actionsRemaining := actionsRemaining prev - 1\<rparr>)"

definition executeMove :: "real \<Rightarrow> real \<Rightarrow> MoveType \<Rightarrow> string \<Rightarrow> app \<Rightarrow> error + app" where
  "executeMove u1 u2 ty cardId a =
     (case gameState a of
        None \<Rightarrow> Inr a
      | Some prev \<Rightarrow>
          if actionsRemaining prev \<le> 0 \<or> phase prev \<noteq> PLAY_PHASE \<or> truthy (winner prev)
             \<or> pendingAction prev \<noteq> None
          then Inr a
          else
            (case at_index (players prev) (activePlayerIndex prev) of
               None \<Rightarrow> Inl TypeError
             | Some p \<Rightarrow>
                 (case findIndex (\<lambda>c. card_id c = cardId) (hand p) of
                    None \<Rightarrow> Inr a
                  | Some cardIndex \<Rightarrow>
                      let c = hand p ! cardIndex
                      in (case ty of
                            BANK \<Rightarrow> checked a (moveBank prev p cardIndex c)
                          | PROPERTY_move \<Rightarrow>
                              if card_type c \<noteq> PROPERTY \<and> card_type c \<noteq> WILD then Inr a
                              else checked a (moveProperty prev p cardIndex c)
                          | ACTION_PLAY \<Rightarrow>
                              if card_type c = RENT
                              then Inr (a\<lparr>gameState := Some (removeFromHand prev p cardIndex),
                                          pendingRentCard := Some c\<rparr>)
                              else if card_name c = ''Force Deal''
                              then playForceDeal u1 u2 a prev p cardIndex c
                              else if card_name c = ''Sly Deal''
                              then playSlyDeal u1 a prev p cardIndex c
                              else checked a (playOther prev p cardIndex c)))))"

subsection \<open>startTurn and endTurn\<close>

definition startTurn :: "app \<Rightarrow> error + app" where
  "startTurn a =
     (case gameState a of
        None \<Rightarrow> Inr a
      | Some prev \<Rightarrow>
          if phase prev \<noteq> START_TURN then Inr a
          else (case at_index (players prev) (activePlayerIndex prev) of
                  None \<Rightarrow> Inl TypeError
                | Some p \<Rightarrow>
                    let drawCount = (if length (hand p) = 0 then 5 else 2 :: nat)
                    in Inr (a\<lparr>gameState := Some
                         ((setPlayer (activePlayerIndex prev)
                             (p\<lparr>hand := hand p @ take drawCount (deck prev)\<rparr>) prev)
                          \<lparr>deck := drop drawCount (deck prev),
                           actionsRemaining := 3,
                           phase := PLAY_PHASE,
                           logs := (player_name p @ '' draws '' @ show_int (int drawCount)
                                      @ '' cards.'') # logs prev\<rparr>)\<rparr>)))"

text \<open>
  \<open>endTurn\<close> clears the three interaction states after the update, whatever the updater
  did.
\<close>

definition endTurn :: "app \<Rightarrow> error + app" where
  "endTurn a =
     (let cleared = a\<lparr>pendingRentCard := None, pendingForceDeal := None, pendingSlyDeal := None\<rparr>
      in case gameState a of
           None \<Rightarrow> Inr cleared
         | Some prev \<Rightarrow>
             if phase prev \<noteq> PLAY_PHASE then Inr cleared
             else
               let nextIdx = js_rem (activePlayerIndex prev + 1) 2
               in (case at_index (players prev) nextIdx of
                     None \<Rightarrow> Inl TypeError
                   | Some nextPlayer \<Rightarrow>
                       Inr (cleared\<lparr>gameState := Some
                              (prev\<lparr>activePlayerIndex := nextIdx,
                                    actionsRemaining := 3,
                                    phase := START_TURN,
                                    logs := (''Turn change: '' @ player_name nextPlayer
                                               @ '''s turn.'') # logs prev\<rparr>)\<rparr>)))"

section \<open>Sequences of operations\<close>

text \<open>
  The handlers of the component as one type of operations, and the run of a list of them
  from a state; an exception ends the run.
\<close>

datatype operation =
    ExecuteMove real real MoveType string
  | ResolvePendingAction bool
  | HandleRentCollection int
  | InitiateForceDeal int
  | InitiateSlyDeal int
  | SelectMySet int
  | StartTurn
  | EndTurn

fun perform :: "operation \<Rightarrow> app \<Rightarrow> error + app" where
  "perform (ExecuteMove u1 u2 ty cardId) a = executeMove u1 u2 ty cardId a"
| "perform (ResolvePendingAction useJSN) a = resolvePendingAction useJSN a"
| "perform (HandleRentCollection i) a = handleRentCollection i a"
| "perform (InitiateForceDeal i) a = Inr (initiateForceDeal i a)"
| "perform (InitiateSlyDeal i) a = Inr (initiateSlyDeal i a)"
| "perform (SelectMySet i) a = Inr (selectMySet i a)"
| "perform StartTurn a = startTurn a"
| "perform EndTurn a = endTurn a"

fun run :: "operation list \<Rightarrow> app \<Rightarrow> error + app" where
  "run [] a = Inr a"
| "run (op # ops) a = (case perform op a of Inl e \<Rightarrow> Inl e | Inr a' \<Rightarrow> run ops a')"

text \<open>The state a run ends in; the start when the run throws.\<close>

definition stateAfter :: "operation list \<Rightarrow> app \<Rightarrow> app" where
  "stateAfter ops a = (case run ops a of Inl e \<Rightarrow> a | Inr a' \<Rightarrow> a')"

definition snapshot :: "app \<Rightarrow> game_state" where
  "snapshot a = the (gameState a)"

text \<open>Whether a run ends without an exception.\<close>

definition succeeds :: "operation list \<Rightarrow> app \<Rightarrow> bool" where
  "succeeds ops a = (case run ops a of Inl e \<Rightarrow> False | Inr a' \<Rightarrow> True)"

text \<open>
  The completion invariant of the specification: the flag of every set of every player says
  whether the set has reached the limit of its colour.
\<close>

definition completionInvariant :: "game_state \<Rightarrow> bool" where
  "completionInvariant s =
     list_all (\<lambda>p. list_all (\<lambda>q. isComplete q = (SET_LIMITS (color q) \<le> length (cards q)))
                         (properties p)) (players s)"

section \<open>The assignment rule of the specification\<close>

text \<open>
  \<open>assignToProperty(player, card)\<close> in the words of section 4.1 of the specification: the
  target colour is the colour of the card, or \<open>ANY\<close>; the player's set of that colour is
  found or created; the card is appended and the flag recomputed.
\<close>

fun assignColor :: "property_set list \<Rightarrow> PropertyColor \<Rightarrow> card \<Rightarrow> property_set list" where
  "assignColor [] col c = [\<lparr>color = col, cards = [c], isComplete = (SET_LIMITS col \<le> 1)\<rparr>]"
| "assignColor (q # qs) col c =
     (if color q = col
      then q\<lparr>cards := cards q @ [c], isComplete := (SET_LIMITS col \<le> Suc (length (cards q)))\<rparr> # qs
      else q # assignColor qs col c)"

definition assignToProperty_spec :: "property_set list \<Rightarrow> card \<Rightarrow> property_set list" where
  "assignToProperty_spec ps c =
     assignColor ps (case card_color c of None \<Rightarrow> ANY | Some col \<Rightarrow> col) c"

section \<open>Reachable states\<close>


text \<open>
  The discipline the user interface keeps (lines 580, 900-901, 1035 and 1103): a card is
  played and a turn is ended only while no interaction waits for its target, the target of a
  Force Deal is chosen once its source set is, and the target of a Sly Deal while one waits.
\<close>

fun permitted :: "operation \<Rightarrow> app \<Rightarrow> bool" where
  "permitted (ExecuteMove u1 u2 ty cardId) a =
     (pendingRentCard a = None \<and> pendingForceDeal a = None \<and> pendingSlyDeal a = None)"
| "permitted EndTurn a =
     (pendingRentCard a = None \<and> pendingForceDeal a = None \<and> pendingSlyDeal a = None)"
| "permitted (InitiateForceDeal i) a =
     (case pendingForceDeal a of None \<Rightarrow> False | Some fd \<Rightarrow> fd_mySetIndex fd \<noteq> None)"
| "permitted (InitiateSlyDeal i) a = (pendingSlyDeal a \<noteq> None)"
| "permitted (ResolvePendingAction useJSN) a = True"
| "permitted (HandleRentCollection i) a = True"
| "permitted (SelectMySet i) a = True"
| "permitted StartTurn a = True"

inductive reachableUI :: "card list \<Rightarrow> app \<Rightarrow> bool" for shuffled :: "card list" where
  start: "reachableUI shuffled (initializeGame vsAI isMultiplayer shuffled initialApp)"
| step: "reachableUI shuffled a \<Longrightarrow> permitted op a \<Longrightarrow> perform op a = Inr a'
         \<Longrightarrow> reachableUI shuffled a'"

text \<open>Whether every operation of a run is permitted where it is performed.\<close>

fun permittedRun :: "operation list \<Rightarrow> app \<Rightarrow> bool" where
  "permittedRun [] a = True"
| "permittedRun (op # ops) a =
     (permitted op a \<and> (case perform op a of Inl e \<Rightarrow> False | Inr a' \<Rightarrow> permittedRun ops a'))"

section \<open>Where the cards are\<close>

text \<open>
  The cards in the containers of a snapshot: the deck, the discard pile and the hand, bank
  and properties of every player.
\<close>

definition containerCards :: "game_state \<Rightarrow> card multiset" where
  "containerCards s =
     mset (deck s) + mset (discardPile s) + sum_list (map playerCards (players s))"

text \<open>A card that may be absent, as a multiset.\<close>

definition optCard :: "card option \<Rightarrow> card multiset" where
  "optCard c = (case c of None \<Rightarrow> {#} | Some x \<Rightarrow> {#x#})"

text \<open>
  The cards in flight: the triggering card of the pending action, and the card held by an
  interaction that waits for its target.
\<close>

definition pendingCard :: "game_state \<Rightarrow> card multiset" where
  "pendingCard s = optCard (map_option pa_card (pendingAction s))"

definition uiCards :: "app \<Rightarrow> card multiset" where
  "uiCards a =
     optCard (pendingRentCard a) + optCard (map_option fd_card (pendingForceDeal a))
     + optCard (pendingSlyDeal a)"

definition heldCards :: "app \<Rightarrow> card multiset" where
  "heldCards a = (case gameState a of None \<Rightarrow> {#} | Some s \<Rightarrow> pendingCard s) + uiCards a"

definition allCards :: "app \<Rightarrow> card multiset" where
  "allCards a =
     (case gameState a of None \<Rightarrow> {#} | Some s \<Rightarrow> containerCards s) + heldCards a"

text \<open>
  What an operation that is not the end of a turn keeps of a snapshot: whose turn it is, the
  phase, the winner and the names of the players.
\<close>

definition sameTable :: "game_state \<Rightarrow> game_state \<Rightarrow> bool" where
  "sameTable s s' \<longleftrightarrow>
     activePlayerIndex s' = activePlayerIndex s \<and> phase s' = phase s \<and> winner s' = winner s \<and>
     map player_name (players s') = map player_name (players s)"

text \<open>The number of complete sets of a player.\<close>

definition fullSets :: "player \<Rightarrow> nat" where
  "fullSets p = length (filter isComplete (properties p))"

text \<open>
  What a move can do to the component: nothing; a change of the snapshot that ends with the
  check for a win; a change without the check; or a change that leaves the played card with
  an interaction. Whose turn it is, the phase, the winner and the names stay, and the played
  card is still in a container or in flight.
\<close>

inductive moveOutcome :: "app \<Rightarrow> game_state \<Rightarrow> app \<Rightarrow> bool" for a :: app and s :: game_state where
  unchanged: "moveOutcome a s a"
| checks: "checked a t = Inr a' \<Longrightarrow> sameTable s t \<Longrightarrow>
     containerCards t + pendingCard t = containerCards s \<Longrightarrow> moveOutcome a s a'"
| direct: "sameTable s t \<Longrightarrow> containerCards t + pendingCard t = containerCards s \<Longrightarrow>
     moveOutcome a s (a\<lparr>gameState := Some t\<rparr>)"
| rent: "sameTable s t \<Longrightarrow> pendingAction t = None \<Longrightarrow>
     containerCards t + {#c#} = containerCards s \<Longrightarrow>
     moveOutcome a s (a\<lparr>gameState := Some t, pendingRentCard := Some c\<rparr>)"
| force: "sameTable s t \<Longrightarrow> pendingAction t = None \<Longrightarrow>
     containerCards t + {#c#} = containerCards s \<Longrightarrow>
     moveOutcome a s (a\<lparr>gameState := Some t,
                        pendingForceDeal := Some \<lparr>fd_card = c, fd_mySetIndex = None\<rparr>\<rparr>)"
| sly: "sameTable s t \<Longrightarrow> pendingAction t = None \<Longrightarrow>
     containerCards t + {#c#} = containerCards s \<Longrightarrow>
     moveOutcome a s (a\<lparr>gameState := Some t, pendingSlyDeal := Some c\<rparr>)"

text \<open>
  How an operation may change the winner and the phase: not at all; by the check for a win,
  which the acting player passes with three complete sets; or, without a winner, by the start
  or the end of a turn. The names of the players stay.
\<close>

definition winStep :: "game_state \<Rightarrow> game_state \<Rightarrow> bool" where
  "winStep s s' \<longleftrightarrow>
     map player_name (players s') = map player_name (players s) \<and>
     ((activePlayerIndex s' = activePlayerIndex s \<and> winner s' = winner s \<and> phase s' = phase s) \<or>
      (activePlayerIndex s' = activePlayerIndex s \<and> phase s' = GAME_OVER \<and>
       (\<exists>p. at_index (players s') (activePlayerIndex s') = Some p \<and>
            winner s' = Some (player_name p) \<and> 3 \<le> fullSets p)) \<or>
      (winner s' = winner s \<and> phase s \<noteq> GAME_OVER \<and> phase s' \<noteq> GAME_OVER))"


section \<open>Example cards, players and states\<close>

definition money5 :: card where "money5 = createCard ''a'' ''5M'' MONEY 5 None None None"
definition money2 :: card where "money2 = createCard ''b'' ''2M'' MONEY 2 None None None"
definition money0 :: card where "money0 = createCard ''c'' ''0M'' MONEY 0 None None None"
definition parkLane :: card where
  "parkLane = createCard ''d'' ''Park Lane'' PROPERTY 4 (Some DARK_BLUE) None None"

definition debtor0 :: player where
  "debtor0 = \<lparr>player_id = ''p2'', player_name = ''Player 2'', hand = [],
              bank = [money5, money2], properties = [], isAI = False\<rparr>"

definition creditor0 :: player where
  "creditor0 = \<lparr>player_id = ''p1'', player_name = ''Player 1'', hand = [],
              bank = [], properties = [], isAI = False\<rparr>"

definition debtor1 :: player where
  "debtor1 = \<lparr>player_id = ''p2'', player_name = ''Player 2'', hand = [],
              bank = [money2, money0],
              properties = [\<lparr>color = DARK_BLUE, cards = [parkLane], isComplete = False\<rparr>],
              isAI = False\<rparr>"

definition payment1 :: payment where
  "payment1 = \<lparr>fromPlayer = debtor1, toPlayer = creditor0, remaining = 100, log_p = []\<rparr>"

text \<open>
  A deck for the examples: the random suffix of the card created as number \<open>i\<close> is the
  decimal numeral of \<open>i\<close>. A shuffle is given by the positions \<open>front\<close> of the cards it
  brings to the top, in that order; the other cards keep the order of the deck.
\<close>

definition theDeck :: "card list" where
  "theDeck = INITIAL_DECK (\<lambda>i. digits i)"

definition restOf :: "nat list \<Rightarrow> card list" where
  "restOf front = map (\<lambda>i. theDeck ! i) (filter (\<lambda>i. i \<notin> set front) [0..<length theDeck])"

definition toFront :: "nat list \<Rightarrow> card list" where
  "toFront front = map (\<lambda>i. theDeck ! i) front @ restOf front"

text \<open>Cards of the deck that the examples name.\<close>

definition fiveM2 :: card where
  "fiveM2 = createCard ''2'' ''5M'' MONEY 5 None None None"

definition twoM1 :: card where
  "twoM1 = createCard ''9'' ''2M'' MONEY 2 None None None"

definition oneM1 :: card where
  "oneM1 = createCard ''14'' ''1M'' MONEY 1 None None None"

definition oneM2 :: card where
  "oneM2 = createCard ''15'' ''1M'' MONEY 1 None None None"

definition oneM3 :: card where
  "oneM3 = createCard ''16'' ''1M'' MONEY 1 None None None"

definition oneM4 :: card where
  "oneM4 = createCard ''17'' ''1M'' MONEY 1 None None None"

definition oneM5 :: card where
  "oneM5 = createCard ''18'' ''1M'' MONEY 1 None None None"

definition oneM6 :: card where
  "oneM6 = createCard ''19'' ''1M'' MONEY 1 None None None"

definition dealBreaker1 :: card where
  "dealBreaker1 = createCard ''20'' ''Deal Breaker'' ACTION 7 None (Some ''Steal a complete set from any player.'') None"

definition slyDeal1 :: card where
  "slyDeal1 = createCard ''22'' ''Sly Deal'' ACTION 3 None (Some ''Steal a single property from any player.'') None"

definition forceDeal1 :: card where
  "forceDeal1 = createCard ''25'' ''Force Deal'' ACTION 3 None (Some ''Swap a property with another player.'') None"

definition justSayNo1 :: card where
  "justSayNo1 = createCard ''28'' ''Just Say No'' ACTION 4 None (Some ''Counter any action card.'') None"

definition justSayNo2 :: card where
  "justSayNo2 = createCard ''29'' ''Just Say No'' ACTION 4 None (Some ''Counter any action card.'') None"

definition debtCollector1 :: card where
  "debtCollector1 = createCard ''31'' ''Debt Collector'' ACTION 3 None (Some ''Collect 5M from one player.'') None"

definition birthday1 :: card where
  "birthday1 = createCard ''34'' ''It's My Birthday'' ACTION 2 None (Some ''Collect 2M from all players.'') None"

definition passGo1 :: card where
  "passGo1 = createCard ''37'' ''Pass Go'' ACTION 1 None (Some ''Draw 2 extra cards.'') None"

definition passGo2 :: card where
  "passGo2 = createCard ''38'' ''Pass Go'' ACTION 1 None (Some ''Draw 2 extra cards.'') None"

definition passGo3 :: card where
  "passGo3 = createCard ''39'' ''Pass Go'' ACTION 1 None (Some ''Draw 2 extra cards.'') None"

definition passGo4 :: card where
  "passGo4 = createCard ''40'' ''Pass Go'' ACTION 1 None (Some ''Draw 2 extra cards.'') None"

definition passGo5 :: card where
  "passGo5 = createCard ''41'' ''Pass Go'' ACTION 1 None (Some ''Draw 2 extra cards.'') None"

definition passGo6 :: card where
  "passGo6 = createCard ''42'' ''Pass Go'' ACTION 1 None (Some ''Draw 2 extra cards.'') None"

definition passGo7 :: card where
  "passGo7 = createCard ''43'' ''Pass Go'' ACTION 1 None (Some ''Draw 2 extra cards.'') None"

definition passGo8 :: card where
  "passGo8 = createCard ''44'' ''Pass Go'' ACTION 1 None (Some ''Draw 2 extra cards.'') None"

definition passGo9 :: card where
  "passGo9 = createCard ''45'' ''Pass Go'' ACTION 1 None (Some ''Draw 2 extra cards.'') None"

definition passGo10 :: card where
  "passGo10 = createCard ''46'' ''Pass Go'' ACTION 1 None (Some ''Draw 2 extra cards.'') None"

definition oldKentRoad1 :: card where
  "oldKentRoad1 = createCard ''60'' ''Old Kent Road'' PROPERTY 1 (Some BROWN) None None"

definition oldKentRoad2 :: card where
  "oldKentRoad2 = createCard ''61'' ''Old Kent Road'' PROPERTY 1 (Some BROWN) None None"

definition fleetStreet1 :: card where
  "fleetStreet1 = createCard ''71'' ''Fleet Street'' PROPERTY 3 (Some RED) None None"

definition parkLane1 :: card where
  "parkLane1 = createCard ''80'' ''Park Lane'' PROPERTY 4 (Some DARK_BLUE) None None"

definition parkLane2 :: card where
  "parkLane2 = createCard ''81'' ''Park Lane'' PROPERTY 4 (Some DARK_BLUE) None None"

definition waterWorks1 :: card where
  "waterWorks1 = createCard ''86'' ''Water Works'' PROPERTY 2 (Some UTILITY) None None"

definition waterWorks2 :: card where
  "waterWorks2 = createCard ''87'' ''Water Works'' PROPERTY 2 (Some UTILITY) None None"

definition wildDarkBlueGreen :: card where
  "wildDarkBlueGreen = createCard ''88'' ''Dark Blue/Green Wild'' WILD 4 (Some DARK_BLUE) (Some ''Use as Dark Blue or Green property.'') (Some GREEN)"

definition wildLightBlueBrown :: card where
  "wildLightBlueBrown = createCard ''89'' ''Light Blue/Brown Wild'' WILD 1 (Some LIGHT_BLUE) (Some ''Use as Light Blue or Brown property.'') (Some BROWN)"

text \<open>
  Example A: two players at one device; player 1 is dealt a Debt Collector and plays it.
\<close>

definition frontA :: "nat list" where
  "frontA = [31, 14, 15, 16, 17, 18, 19, 37, 38, 39, 40, 41]"

definition startA :: app where
  "startA = initializeGame False False (toFront frontA) initialApp"

definition opsA :: "operation list" where
  "opsA = [StartTurn, ExecuteMove 0 0 ACTION_PLAY ''Debt Collector-31'']"

text \<open>
  Example B: player 1 lays both Park Lanes and the Dark Blue/Green wild card, a Dark Blue set
  of three cards; player 2 plays It's My Birthday, player 1 lets it happen and, with an empty
  bank, pays with the wild card.
\<close>

definition frontB :: "nat list" where
  "frontB = [80, 81, 88, 14, 15, 34, 16, 17, 18, 19, 37, 38, 39, 40]"

definition startB :: app where
  "startB = initializeGame False False (toFront frontB) initialApp"

definition opsB :: "operation list" where
  "opsB = [StartTurn,
           ExecuteMove 0 0 PROPERTY_move ''Park Lane-80'',
           ExecuteMove 0 0 PROPERTY_move ''Park Lane-81'',
           ExecuteMove 0 0 PROPERTY_move ''Dark Blue/Green Wild-88'',
           EndTurn, StartTurn,
           ExecuteMove 0 0 ACTION_PLAY ''It's My Birthday-34'',
           ResolvePendingAction False]"

text \<open>
  Example C: player 2 completes Brown and Dark Blue and holds one Water Works and one Fleet
  Street; player 1 then swaps the other Water Works for the Fleet Street with a Force Deal,
  which player 2 lets happen.
\<close>

definition frontC :: "nat list" where
  "frontC = [86, 25, 14, 15, 16, 60, 61, 80, 81, 87, 37, 38, 71, 39, 40, 41, 42, 43, 44, 45, 17, 18]"




text \<open>
  Example D: player 1 completes Dark Blue with both Park Lanes, player 2 lays the Dark
  Blue/Green wild card, and player 1 steals it with a Sly Deal.
\<close>

definition frontD :: "nat list" where
  "frontD = [80, 81, 22, 14, 15, 88, 16, 17, 18, 19, 37, 38, 39, 40, 41, 42]"

definition startD :: app where
  "startD = initializeGame False False (toFront frontD) initialApp"

definition opsD :: "operation list" where
  "opsD = [StartTurn, ExecuteMove 0 0 PROPERTY_move ''Park Lane-80'', ExecuteMove 0 0 PROPERTY_move ''Park Lane-81'', EndTurn,
           StartTurn, ExecuteMove 0 0 PROPERTY_move ''Dark Blue/Green Wild-88'', EndTurn,
           StartTurn, ExecuteMove 0 0 ACTION_PLAY ''Sly Deal-22'', InitiateSlyDeal 0,
           ResolvePendingAction False]"

text \<open>
  Example E: player 1 lays an Old Kent Road, player 2 the Light Blue/Brown wild card; player 1
  plays It's My Birthday and player 2, with an empty bank, pays with the wild card.
\<close>

definition frontE :: "nat list" where
  "frontE = [60, 34, 14, 15, 16, 89, 17, 18, 19, 37, 38, 39, 40, 41, 42, 43]"

definition startE :: app where
  "startE = initializeGame False False (toFront frontE) initialApp"

definition opsE :: "operation list" where
  "opsE = [StartTurn, ExecuteMove 0 0 PROPERTY_move ''Old Kent Road-60'', EndTurn,
           StartTurn, ExecuteMove 0 0 PROPERTY_move ''Light Blue/Brown Wild-89'', EndTurn,
           StartTurn, ExecuteMove 0 0 ACTION_PLAY ''It's My Birthday-34'']"

text \<open>The settlement that follows in example E, when player 2 lets the action happen.\<close>

definition paymentE :: payment where
  "paymentE = \<lparr>fromPlayer = players (snapshot (stateAfter opsE startE)) ! 1,
               toPlayer = players (snapshot (stateAfter opsE startE)) ! 0,
               remaining = 2, log_p = []\<rparr>"

text \<open>
  Example F: a game against the automated player, who holds a Sly Deal when player 1 has laid
  a Park Lane and an Old Kent Road.
\<close>

definition frontF :: "nat list" where
  "frontF = [80, 60, 14, 15, 16, 22, 17, 18, 19, 37, 38, 39, 40, 41]"

definition startF :: app where
  "startF = initializeGame True False (toFront frontF) initialApp"

definition opsF :: "operation list" where
  "opsF = [StartTurn, ExecuteMove 0 0 PROPERTY_move ''Park Lane-80'', ExecuteMove 0 0 PROPERTY_move ''Old Kent Road-60'', EndTurn,
           StartTurn]"

text \<open>
  Example G: player 2 banks 5M and 2M; player 1 plays a Debt Collector, player 2 counters with
  a Just Say No (a stack of 1), and player 1 counters that with a Just Say No (a stack of 2).
\<close>

definition frontG :: "nat list" where
  "frontG = [31, 28, 14, 15, 16, 29, 2, 9, 17, 18, 37, 38, 39, 40, 41, 42]"

definition startG :: app where
  "startG = initializeGame False False (toFront frontG) initialApp"

definition opsG :: "operation list" where
  "opsG = [StartTurn, EndTurn,
           StartTurn, ExecuteMove 0 0 BANK ''5M-2'', ExecuteMove 0 0 BANK ''2M-9'', EndTurn,
           StartTurn, ExecuteMove 0 0 ACTION_PLAY ''Debt Collector-31'',
           ResolvePendingAction True]"

definition opsG' :: "operation list" where
  "opsG' = opsG @ [ResolvePendingAction True]"

section \<open>Properties of the settlement loops\<close>

lemma bankStep_bank:
  "bankCond st \<Longrightarrow> Suc (length (bank (fromPlayer (bankStep st)))) = length (bank (fromPlayer st))"
  by (auto simp: bankCond_def bankStep_def Let_def split: list.splits)

lemma bankStep_properties:
  "properties (fromPlayer (bankStep st)) = properties (fromPlayer st)"
  by (auto simp: bankStep_def Let_def split: list.splits)

lemma propertyStep_bank:
  "propertyStep st = Some st' \<Longrightarrow> bank (fromPlayer st') = bank (fromPlayer st)"
  by (auto simp: propertyStep_def Let_def split: option.splits)

lemma bankIter_enough:
  "length (bank (fromPlayer st)) \<le> n \<Longrightarrow> bankIter n st = Some (bankLoop st)"
proof (induction n arbitrary: st)
  case 0
  then show ?case by (simp add: bankCond_def bankLoop.simps)
next
  case (Suc n)
  show ?case
  proof (cases "bankCond st")
    case True
    from bankStep_bank [OF True] Suc.prems
    have "length (bank (fromPlayer (bankStep st))) \<le> n" by simp
    from Suc.IH [OF this] True show ?thesis
      by (simp add: bankLoop.simps [of st])
  next
    case False
    then show ?thesis by (simp add: bankLoop.simps [of st])
  qed
qed

lemma propertyIter_enough:
  "setCards (properties (fromPlayer st)) \<le> n \<Longrightarrow> propertyIter n st = Some (propertyLoop st)"
proof (induction n arbitrary: st)
  case 0
  show ?case
  proof (cases "propertyStep st")
    case None
    then show ?thesis by (simp add: propertyLoop.simps [of st])
  next
    case (Some st')
    from propertyStep_decreases [OF Some] 0 show ?thesis by simp
  qed
next
  case (Suc n)
  show ?case
  proof (cases "propertyStep st")
    case None
    then show ?thesis by (simp add: propertyLoop.simps [of st])
  next
    case (Some st')
    from propertyStep_decreases [OF Some] Suc.prems
    have "setCards (properties (fromPlayer st')) \<le> n" by simp
    from Suc.IH [OF this] Some show ?thesis
      by (simp add: propertyLoop.simps [of st])
  qed
qed

lemma propertyStep_None:
  "propertyStep st = None \<longleftrightarrow> (\<forall>p \<in> set (properties (fromPlayer st)). cards p = [])"
  by (auto simp: propertyStep_def Let_def findIndex_None split: option.splits
           dest!: findIndex_Some)

lemma setsValue_update:
  "i < length ps \<Longrightarrow>
   setsValue (ps[i := q]) + cardsValue (cards (ps ! i)) = setsValue ps + cardsValue (cards q)"
  unfolding setsValue_def
proof (induction ps arbitrary: i)
  case Nil
  then show ?case by simp
next
  case (Cons p ps)
  show ?case
  proof (cases i)
    case 0
    then show ?thesis by simp
  next
    case (Suc k)
    with Cons.prems have "k < length ps" by simp
    from Cons.IH [OF this] Suc show ?thesis by simp
  qed
qed

lemma setsValue_splice1:
  "i < length ps \<Longrightarrow> setsValue (splice1 i ps) + cardsValue (cards (ps ! i)) = setsValue ps"
  unfolding setsValue_def splice1_def
proof (induction ps arbitrary: i)
  case Nil
  then show ?case by simp
next
  case (Cons p ps)
  show ?case
  proof (cases i)
    case 0
    then show ?thesis by simp
  next
    case (Suc k)
    with Cons.prems have "k < length ps" by simp
    from Cons.IH [OF this] Suc show ?thesis by simp
  qed
qed

lemma cardsValue_butlast:
  "cs \<noteq> [] \<Longrightarrow> cardsValue (butlast cs) + card_value (last cs) = cardsValue cs"
  by (cases cs rule: rev_cases) (auto simp: cardsValue_def)

lemma setsValue_popFromSet:
  assumes "i < length ps" and "cards (ps ! i) \<noteq> []"
  shows "setsValue (popFromSet ps i) + card_value (last (cards (ps ! i))) = setsValue ps"
proof (cases "butlast (cards (ps ! i)) = []")
  case True
  with cardsValue_butlast [OF assms(2)] setsValue_splice1 [OF assms(1)] show ?thesis
    by (simp add: popFromSet_def cardsValue_def)
next
  case False
  with cardsValue_butlast [OF assms(2)]
    setsValue_update [OF assms(1),
      of "(ps ! i)\<lparr>cards := butlast (cards (ps ! i)), isComplete := False\<rparr>"]
  show ?thesis
    by (simp add: popFromSet_def)
qed

lemma setsValue_pushToSet:
  "i < length ps \<Longrightarrow> setsValue (pushToSet ps i c) = setsValue ps + card_value c"
  using setsValue_update [of i ps "(ps ! i)\<lparr>cards := cards (ps ! i) @ [c],
      isComplete := (SET_LIMITS (color (ps ! i)) \<le> length (cards (ps ! i) @ [c]))\<rparr>"]
  by (simp add: pushToSet_def cardsValue_def)

lemma setsValue_pushNewSet: "setsValue (pushNewSet ps col c) = setsValue ps + card_value c"
  by (simp add: pushNewSet_def setsValue_def cardsValue_def)

lemma propertyStep_value:
  assumes "propertyStep st = Some st'"
  shows "assetValue (fromPlayer st') = assetValue (fromPlayer st) - (remaining st - remaining st')"
    and "assetValue (toPlayer st') = assetValue (toPlayer st) + (remaining st - remaining st')"
proof -
  from assms obtain i where i: "findIndex (\<lambda>p. 0 < length (cards p)) (properties (fromPlayer st)) = Some i"
    by (auto simp: propertyStep_def split: option.splits)
  from findIndex_Some [OF i] have *: "i < length (properties (fromPlayer st))"
    "cards (properties (fromPlayer st) ! i) \<noteq> []" by auto
  from setsValue_popFromSet [OF *] assms i
  show "assetValue (fromPlayer st') = assetValue (fromPlayer st) - (remaining st - remaining st')"
    by (auto simp: propertyStep_def Let_def assetValue_def)
  from assms i
  show "assetValue (toPlayer st') = assetValue (toPlayer st) + (remaining st - remaining st')"
    by (auto simp: propertyStep_def Let_def assetValue_def setsValue_pushNewSet
        setsValue_pushToSet split: option.splits dest!: findIndex_Some)
qed

lemma bankStep_value:
  assumes "bankCond st"
  shows "assetValue (fromPlayer (bankStep st)) = assetValue (fromPlayer st) - (remaining st - remaining (bankStep st))"
    and "assetValue (toPlayer (bankStep st)) = assetValue (toPlayer st) + (remaining st - remaining (bankStep st))"
  using assms
  by (auto simp: bankCond_def bankStep_def Let_def assetValue_def cardsValue_def split: list.splits)

lemma setsCards_update:
  "i < length ps \<Longrightarrow>
   setsCards (ps[i := q]) + mset (cards (ps ! i)) = setsCards ps + mset (cards q)"
  unfolding setsCards_def
proof (induction ps arbitrary: i)
  case Nil
  then show ?case by simp
next
  case (Cons p ps)
  show ?case
  proof (cases i)
    case 0
    then show ?thesis by simp
  next
    case (Suc k)
    with Cons.prems have "k < length ps" by simp
    from Cons.IH [OF this] Suc show ?thesis by (simp add: add.assoc)
  qed
qed

lemma setsCards_splice1:
  "i < length ps \<Longrightarrow> setsCards (splice1 i ps) + mset (cards (ps ! i)) = setsCards ps"
  unfolding setsCards_def splice1_def
proof (induction ps arbitrary: i)
  case Nil
  then show ?case by simp
next
  case (Cons p ps)
  show ?case
  proof (cases i)
    case 0
    then show ?thesis by simp
  next
    case (Suc k)
    with Cons.prems have "k < length ps" by simp
    from Cons.IH [OF this] Suc show ?thesis by (simp add: add.assoc)
  qed
qed

lemma mset_butlast: "cs \<noteq> [] \<Longrightarrow> mset (butlast cs) + {#last cs#} = mset cs"
  by (cases cs rule: rev_cases) auto

lemma setsCards_popFromSet:
  assumes "i < length ps" and "cards (ps ! i) \<noteq> []"
  shows "setsCards (popFromSet ps i) + {#last (cards (ps ! i))#} = setsCards ps"
proof (cases "butlast (cards (ps ! i)) = []")
  case True
  with mset_butlast [OF assms(2)] have m: "mset (cards (ps ! i)) = {#last (cards (ps ! i))#}"
    by simp
  from setsCards_splice1 [OF assms(1)] have "setsCards (splice1 i ps) + {#last (cards (ps ! i))#} = setsCards ps"
    unfolding m .
  with True show ?thesis by (simp add: popFromSet_def)
next
  case False
  from setsCards_update [OF assms(1),
      of "(ps ! i)\<lparr>cards := butlast (cards (ps ! i)), isComplete := False\<rparr>"]
  have "setsCards (popFromSet ps i) + mset (cards (ps ! i))
          = setsCards ps + mset (butlast (cards (ps ! i)))"
    using False by (simp add: popFromSet_def)
  then have "setsCards (popFromSet ps i) + (mset (butlast (cards (ps ! i))) + {#last (cards (ps ! i))#})
          = setsCards ps + mset (butlast (cards (ps ! i)))"
    by (simp only: mset_butlast [OF assms(2)])
  then have "(setsCards (popFromSet ps i) + {#last (cards (ps ! i))#}) + mset (butlast (cards (ps ! i)))
          = setsCards ps + mset (butlast (cards (ps ! i)))"
    by (simp only: ac_simps)
  then show ?thesis by (simp only: add_right_cancel)
qed

lemma setsCards_pushToSet:
  "i < length ps \<Longrightarrow> setsCards (pushToSet ps i c) = setsCards ps + {#c#}"
  using setsCards_update [of i ps "(ps ! i)\<lparr>cards := cards (ps ! i) @ [c],
      isComplete := (SET_LIMITS (color (ps ! i)) \<le> length (cards (ps ! i) @ [c]))\<rparr>"]
  by (simp add: pushToSet_def)

lemma setsCards_pushNewSet: "setsCards (pushNewSet ps col c) = setsCards ps + {#c#}"
  by (simp add: pushNewSet_def setsCards_def)

text \<open>What one pass of each loop body leaves alone, and what it moves.\<close>

lemma bankStep_frame:
  "hand (fromPlayer (bankStep st)) = hand (fromPlayer st)"
  "hand (toPlayer (bankStep st)) = hand (toPlayer st)"
  "properties (fromPlayer (bankStep st)) = properties (fromPlayer st)"
  "properties (toPlayer (bankStep st)) = properties (toPlayer st)"
  "player_name (fromPlayer (bankStep st)) = player_name (fromPlayer st)"
  "player_name (toPlayer (bankStep st)) = player_name (toPlayer st)"
  "isAI (fromPlayer (bankStep st)) = isAI (fromPlayer st)"
  "isAI (toPlayer (bankStep st)) = isAI (toPlayer st)"
  by (auto simp: bankStep_def Let_def split: list.splits)

lemma propertyStep_frame:
  assumes "propertyStep st = Some st'"
  shows "hand (fromPlayer st') = hand (fromPlayer st)"
    "hand (toPlayer st') = hand (toPlayer st)"
    "bank (fromPlayer st') = bank (fromPlayer st)"
    "bank (toPlayer st') = bank (toPlayer st)"
    "player_name (fromPlayer st') = player_name (fromPlayer st)"
    "player_name (toPlayer st') = player_name (toPlayer st)"
    "isAI (fromPlayer st') = isAI (fromPlayer st)"
    "isAI (toPlayer st') = isAI (toPlayer st)"
  using assms by (auto simp: propertyStep_def Let_def split: option.splits)

lemma propertyStep_cards:
  assumes "propertyStep st = Some st'"
  shows "\<exists>c. setsCards (properties (fromPlayer st')) + {#c#} = setsCards (properties (fromPlayer st))
           \<and> setsCards (properties (toPlayer st')) = setsCards (properties (toPlayer st)) + {#c#}"
proof -
  from assms obtain i where i: "findIndex (\<lambda>p. 0 < length (cards p)) (properties (fromPlayer st)) = Some i"
    by (auto simp: propertyStep_def split: option.splits)
  from findIndex_Some [OF i] have *: "i < length (properties (fromPlayer st))"
    "cards (properties (fromPlayer st) ! i) \<noteq> []" by auto
  let ?c = "last (cards (properties (fromPlayer st) ! i))"
  from assms i have "properties (fromPlayer st') = popFromSet (properties (fromPlayer st)) i"
    by (auto simp: propertyStep_def Let_def)
  with setsCards_popFromSet [OF *]
  have a: "setsCards (properties (fromPlayer st')) + {#?c#} = setsCards (properties (fromPlayer st))"
    by simp
  from assms i
  have b: "setsCards (properties (toPlayer st')) = setsCards (properties (toPlayer st)) + {#?c#}"
    by (auto simp: propertyStep_def Let_def setsCards_pushNewSet setsCards_pushToSet
        split: option.splits dest!: findIndex_Some)
  from a b show ?thesis by blast
qed

lemma bankLoop_prefix:
  "\<exists>k\<le>length (bank (fromPlayer st)).
     bank (toPlayer (bankLoop st)) = bank (toPlayer st) @ take k (bank (fromPlayer st)) \<and>
     bank (fromPlayer (bankLoop st)) = drop k (bank (fromPlayer st)) \<and>
     remaining (bankLoop st) = remaining st - cardsValue (take k (bank (fromPlayer st))) \<and>
     (\<forall>j<k. 0 < remaining st - cardsValue (take j (bank (fromPlayer st)))) \<and>
     (k < length (bank (fromPlayer st)) \<longrightarrow>
        remaining st - cardsValue (take k (bank (fromPlayer st))) \<le> 0)"
proof (induction st rule: bankLoop.induct)
  case (1 st)
  show ?case
  proof (cases "bankCond st")
    case False
    then have stop: "bankLoop st = st" by (simp add: bankLoop.simps [of st])
    from False have "0 < length (bank (fromPlayer st)) \<longrightarrow> remaining st \<le> 0"
      by (auto simp: bankCond_def)
    then show ?thesis
      by (intro exI [of _ 0]) (simp add: stop cardsValue_def)
  next
    case True
    then obtain c rest where cr: "bank (fromPlayer st) = c # rest"
      by (cases "bank (fromPlayer st)") (auto simp: bankCond_def)
    have step: "bank (fromPlayer (bankStep st)) = rest"
      "bank (toPlayer (bankStep st)) = bank (toPlayer st) @ [c]"
      "remaining (bankStep st) = remaining st - card_value c"
      using cr by (auto simp: bankStep_def Let_def)
    from "1.IH" [OF True, unfolded step] obtain k where k: "k \<le> length rest"
      "bank (toPlayer (bankLoop (bankStep st))) = (bank (toPlayer st) @ [c]) @ take k rest"
      "bank (fromPlayer (bankLoop (bankStep st))) = drop k rest"
      "remaining (bankLoop (bankStep st)) = remaining st - card_value c - cardsValue (take k rest)"
      "\<forall>j<k. 0 < remaining st - card_value c - cardsValue (take j rest)"
      "k < length rest \<longrightarrow> remaining st - card_value c - cardsValue (take k rest) \<le> 0"
      by blast
    have pos: "0 < remaining st" using True by (simp add: bankCond_def)
    have all: "\<forall>j<Suc k. 0 < remaining st - cardsValue (take j (c # rest))"
    proof (intro allI impI)
      fix j assume "j < Suc k"
      show "0 < remaining st - cardsValue (take j (c # rest))"
      proof (cases j)
        case 0
        with pos show ?thesis by (simp add: cardsValue_def)
      next
        case (Suc j')
        with \<open>j < Suc k\<close> have "j' < k" by simp
        with k(5) have "0 < remaining st - card_value c - cardsValue (take j' rest)" by blast
        with Suc show ?thesis by (simp add: cardsValue_def)
      qed
    qed
    have loop: "bankLoop st = bankLoop (bankStep st)"
      using True by (simp add: bankLoop.simps [of st])
    have a: "Suc k \<le> length (bank (fromPlayer st))" using k(1) cr by simp
    have b: "bank (toPlayer (bankLoop st)) = bank (toPlayer st) @ take (Suc k) (bank (fromPlayer st))"
      using k(2) by (simp add: loop cr)
    have c: "bank (fromPlayer (bankLoop st)) = drop (Suc k) (bank (fromPlayer st))"
      using k(3) by (simp add: loop cr)
    have d: "remaining (bankLoop st) = remaining st - cardsValue (take (Suc k) (bank (fromPlayer st)))"
      using k(4) by (simp add: loop cr cardsValue_def)
    have e: "\<forall>j<Suc k. 0 < remaining st - cardsValue (take j (bank (fromPlayer st)))"
      using all by (simp only: cr)
    have f: "Suc k < length (bank (fromPlayer st)) \<longrightarrow>
        remaining st - cardsValue (take (Suc k) (bank (fromPlayer st))) \<le> 0"
    proof
      assume "Suc k < length (bank (fromPlayer st))"
      then have "k < length rest" by (simp add: cr)
      with k(6) have "remaining st - card_value c - cardsValue (take k rest) \<le> 0" by blast
      then show "remaining st - cardsValue (take (Suc k) (bank (fromPlayer st))) \<le> 0"
        by (simp add: cr cardsValue_def)
    qed
    show ?thesis
      by (rule exI [of _ "Suc k"]) (intro conjI a b c d e f)
  qed
qed

lemma cardsValue_sort: "cardsValue (sort_key f xs) = cardsValue xs"
proof -
  have "sum_mset (image_mset card_value (mset (sort_key f xs)))
          = sum_mset (image_mset card_value (mset xs))" by simp
  then show ?thesis
    unfolding cardsValue_def by (simp only: flip: mset_map sum_mset_sum_list)
qed

lemma bankLoop_preserves:
  assumes "\<And>s. bankCond s \<Longrightarrow> f (bankStep s) = f s"
  shows "f (bankLoop st) = f st"
proof (induction st rule: bankLoop.induct)
  case (1 st)
  show ?case
  proof (cases "bankCond st")
    case True
    from "1.IH" [OF True] assms [OF True] True show ?thesis
      by (simp add: bankLoop.simps [of st])
  next
    case False
    then show ?thesis by (simp add: bankLoop.simps [of st])
  qed
qed

lemma propertyLoop_preserves:
  assumes "\<And>s s'. propertyStep s = Some s' \<Longrightarrow> f s' = f s"
  shows "f (propertyLoop st) = f st"
proof (induction st rule: propertyLoop.induct)
  case (1 st)
  show ?case
  proof (cases "propertyCond st")
    case False
    then show ?thesis by (simp add: propertyLoop.simps [of st])
  next
    case True
    show ?thesis
    proof (cases "propertyStep st")
      case None
      with True show ?thesis by (simp add: propertyLoop.simps [of st])
    next
      case (Some s')
      from "1.IH" [OF True Some] assms [OF Some] True Some show ?thesis
        by (simp add: propertyLoop.simps [of st])
    qed
  qed
qed

lemma propertyLoop_banks:
  "bank (fromPlayer (propertyLoop st)) = bank (fromPlayer st)"
  "bank (toPlayer (propertyLoop st)) = bank (toPlayer st)"
  "hand (fromPlayer (propertyLoop st)) = hand (fromPlayer st)"
  "hand (toPlayer (propertyLoop st)) = hand (toPlayer st)"
  by (rule propertyLoop_preserves, simp add: propertyStep_frame)+

lemma bankLoop_frame:
  "properties (fromPlayer (bankLoop st)) = properties (fromPlayer st)"
  "properties (toPlayer (bankLoop st)) = properties (toPlayer st)"
  "hand (fromPlayer (bankLoop st)) = hand (fromPlayer st)"
  "hand (toPlayer (bankLoop st)) = hand (toPlayer st)"
  by (rule bankLoop_preserves, simp add: bankStep_frame)+

lemma bankLoop_value:
  "assetValue (fromPlayer (bankLoop st)) - remaining (bankLoop st)
     = assetValue (fromPlayer st) - remaining st"
  "assetValue (toPlayer (bankLoop st)) + remaining (bankLoop st)
     = assetValue (toPlayer st) + remaining st"
  by (rule bankLoop_preserves, simp add: bankStep_value)+

lemma propertyLoop_value:
  "assetValue (fromPlayer (propertyLoop st)) - remaining (propertyLoop st)
     = assetValue (fromPlayer st) - remaining st"
  "assetValue (toPlayer (propertyLoop st)) + remaining (propertyLoop st)
     = assetValue (toPlayer st) + remaining st"
  by (rule propertyLoop_preserves, simp add: propertyStep_value)+

lemma propertyLoop_subset:
  "setsCards (properties (fromPlayer (propertyLoop st))) \<subseteq># setsCards (properties (fromPlayer st))"
proof (induction st rule: propertyLoop.induct)
  case (1 st)
  show ?case
  proof (cases "propertyCond st")
    case False
    then show ?thesis by (simp add: propertyLoop.simps [of st])
  next
    case True
    show ?thesis
    proof (cases "propertyStep st")
      case None
      with True show ?thesis by (simp add: propertyLoop.simps [of st])
    next
      case (Some s')
      from propertyStep_cards [OF Some] obtain c where
        "setsCards (properties (fromPlayer s')) + {#c#} = setsCards (properties (fromPlayer st))"
        by blast
      then have "setsCards (properties (fromPlayer s')) \<subseteq># setsCards (properties (fromPlayer st))"
        by (metis mset_subset_eq_add_left)
      with "1.IH" [OF True Some]
      have "setsCards (properties (fromPlayer (propertyLoop s'))) \<subseteq># setsCards (properties (fromPlayer st))"
        by (rule subset_mset.order_trans)
      with True Some show ?thesis by (simp add: propertyLoop.simps [of st])
    qed
  qed
qed

lemma bankLoop_exit: "\<not> bankCond (bankLoop st)"
proof (induction st rule: bankLoop.induct)
  case (1 st)
  show ?case
  proof (cases "bankCond st")
    case True
    from "1.IH" [OF True] True show ?thesis by (simp add: bankLoop.simps [of st])
  next
    case False
    then show ?thesis by (simp add: bankLoop.simps [of st])
  qed
qed

lemma propertyLoop_exit:
  "\<not> propertyCond (propertyLoop st) \<or> propertyStep (propertyLoop st) = None"
proof (induction st rule: propertyLoop.induct)
  case (1 st)
  show ?case
  proof (cases "propertyCond st")
    case False
    then show ?thesis by (simp add: propertyLoop.simps [of st])
  next
    case True
    show ?thesis
    proof (cases "propertyStep st")
      case None
      with True show ?thesis by (simp add: propertyLoop.simps [of st])
    next
      case (Some s')
      from "1.IH" [OF True Some] True Some show ?thesis
        by (simp add: propertyLoop.simps [of st])
    qed
  qed
qed

lemma setsValue_empty: "\<forall>p\<in>set ps. cards p = [] \<Longrightarrow> setsValue ps = 0"
  by (induction ps) (auto simp: setsValue_def cardsValue_def)

text \<open>Where the second loop stops with debt left, no set holds a card.\<close>

lemma propertyLoop_exhausted:
  assumes "0 < remaining (propertyLoop st)"
  shows "setsValue (properties (fromPlayer (propertyLoop st))) = 0"
proof -
  have "\<not> propertyCond (propertyLoop st) \<or> propertyStep (propertyLoop st) = None"
    by (rule propertyLoop_exit)
  with assms have "\<forall>p\<in>set (properties (fromPlayer (propertyLoop st))). cards p = []"
    by (auto simp: propertyCond_def propertyStep_None)
  then show ?thesis by (rule setsValue_empty)
qed

lemma propertyLoop_skip: "\<not> 0 < remaining st \<Longrightarrow> propertyLoop st = st"
  by (simp add: propertyLoop.simps [of st] propertyCond_def)

lemma processPayment_received:
  "min amount (assetValue debtor)
     \<le> assetValue (toPlayer (processPayment debtor creditor amount lg)) - assetValue creditor"
proof -
  let ?st0 = "\<lparr>fromPlayer = debtor\<lparr>bank := sort_key card_value (bank debtor)\<rparr>,
               toPlayer = creditor, remaining = amount, log_p = lg\<rparr>"
  let ?st1 = "bankLoop ?st0"
  let ?st2 = "propertyLoop ?st1"
  have v0: "assetValue (fromPlayer ?st0) = assetValue debtor"
    by (simp add: assetValue_def cardsValue_sort)
  from bankLoop_value [of ?st0] propertyLoop_value [of ?st1] v0
  have fromv: "assetValue (fromPlayer ?st2) - remaining ?st2 = assetValue debtor - amount"
    and tov: "assetValue (toPlayer ?st2) + remaining ?st2 = assetValue creditor + amount"
    by simp_all
  show ?thesis
  proof (cases "0 < remaining ?st2")
    case False
    with tov show ?thesis by (simp add: processPayment_def)
  next
    case True
    have r1: "0 < remaining ?st1"
    proof (rule ccontr)
      assume "\<not> 0 < remaining ?st1"
      from propertyLoop_skip [OF this] True this show False by simp
    qed
    have "\<not> bankCond ?st1" by (rule bankLoop_exit)
    with r1 have "bank (fromPlayer ?st1) = []" by (simp add: bankCond_def)
    with propertyLoop_banks(1) [of ?st1] have "bank (fromPlayer ?st2) = []" by simp
    with propertyLoop_exhausted [OF True] have "assetValue (fromPlayer ?st2) = 0"
      by (simp add: assetValue_def cardsValue_def)
    with fromv tov show ?thesis by (simp add: processPayment_def)
  qed
qed

lemma processPaymentIter_enough:
  "processPaymentIter (length (bank d) + setCards (properties d)) d c amount lg
     = Some (processPayment d c amount lg)"
proof -
  let ?ini = "\<lparr>fromPlayer = d\<lparr>bank := sort_key card_value (bank d)\<rparr>,
               toPlayer = c, remaining = amount, log_p = lg\<rparr>"
  have "length (bank (fromPlayer ?ini)) \<le> length (bank d) + setCards (properties d)" by simp
  from bankIter_enough [OF this]
  have a: "bankIter (length (bank d) + setCards (properties d)) ?ini = Some (bankLoop ?ini)" .
  have "setCards (properties (fromPlayer (bankLoop ?ini))) \<le> length (bank d) + setCards (properties d)"
    by (simp add: bankLoop_frame)
  from propertyIter_enough [OF this] a show ?thesis
    by (simp add: processPaymentIter_def processPayment_def)
qed

lemmas eval_defs = processPayment_def debtor0_def creditor0_def bankLoop.simps bankCond_def bankStep_def
     propertyLoop.simps propertyCond_def money5_def money2_def createCard_def show_int_def digits.simps

section \<open>Properties of the engine\<close>

lemma setPlayer_fields [simp]:
  "players (setPlayer i p s) = (players s)[nat i := p]"
  "activePlayerIndex (setPlayer i p s) = activePlayerIndex s"
  "deck (setPlayer i p s) = deck s"
  "discardPile (setPlayer i p s) = discardPile s"
  "phase (setPlayer i p s) = phase s"
  "actionsRemaining (setPlayer i p s) = actionsRemaining s"
  "logs (setPlayer i p s) = logs s"
  "winner (setPlayer i p s) = winner s"
  "multiplayerRole (setPlayer i p s) = multiplayerRole s"
  "pendingAction (setPlayer i p s) = pendingAction s"
  by (simp_all add: setPlayer_def)

lemma at_index_Some: "at_index xs i = Some x \<longleftrightarrow> 0 \<le> i \<and> i < int (length xs) \<and> x = xs ! nat i"
  by (auto simp: at_index_def)

lemma at_index_None: "at_index xs i = None \<longleftrightarrow> \<not> (0 \<le> i \<and> i < int (length xs))"
  by (auto simp: at_index_def)

lemma at_index_two:
  "length xs = 2 \<Longrightarrow> i = 0 \<or> i = 1 \<Longrightarrow> \<exists>x y. at_index xs i = Some x \<and> at_index xs (1 - i) = Some y"
  by (auto simp: at_index_def)

text \<open>What the check for a win leaves alone.\<close>

lemma checkWinCondition_frame:
  assumes "checkWinCondition s = Inr s'"
  shows "players s' = players s" "activePlayerIndex s' = activePlayerIndex s"
    "deck s' = deck s" "discardPile s' = discardPile s"
    "actionsRemaining s' = actionsRemaining s" "logs s' = logs s"
    "multiplayerRole s' = multiplayerRole s" "pendingAction s' = pendingAction s"
  using assms by (auto simp: checkWinCondition_def split: option.splits if_splits)

lemma checkWinCondition_total:
  "at_index (players s) (activePlayerIndex s) \<noteq> None \<Longrightarrow> \<exists>s'. checkWinCondition s = Inr s'"
  by (auto simp: checkWinCondition_def)

text \<open>What the effect of an action leaves alone.\<close>

lemma paymentEffect_frame:
  assumes "paymentEffect n msg s pa = Inr e"
  shows "activePlayerIndex e = activePlayerIndex s \<and> deck e = deck s \<and>
    discardPile e = discardPile s \<and> phase e = phase s \<and>
    actionsRemaining e = actionsRemaining s \<and> winner e = winner s \<and>
    multiplayerRole e = multiplayerRole s \<and> pendingAction e = pendingAction s \<and>
    length (players e) = length (players s)"
  using assms by (auto simp: paymentEffect_def Let_def split: option.splits)

lemma forceDealEffect_frame:
  assumes "forceDealEffect s pa = Inr e"
  shows "activePlayerIndex e = activePlayerIndex s \<and> deck e = deck s \<and>
    discardPile e = discardPile s \<and> phase e = phase s \<and>
    actionsRemaining e = actionsRemaining s \<and> winner e = winner s \<and>
    multiplayerRole e = multiplayerRole s \<and> pendingAction e = pendingAction s \<and>
    length (players e) = length (players s)"
  using assms by (auto simp: forceDealEffect_def Let_def split: option.splits if_splits)

lemma slyDealEffect_frame:
  assumes "slyDealEffect s pa = Inr e"
  shows "activePlayerIndex e = activePlayerIndex s \<and> deck e = deck s \<and>
    discardPile e = discardPile s \<and> phase e = phase s \<and>
    actionsRemaining e = actionsRemaining s \<and> winner e = winner s \<and>
    multiplayerRole e = multiplayerRole s \<and> pendingAction e = pendingAction s \<and>
    length (players e) = length (players s)"
  using assms by (auto simp: slyDealEffect_def Let_def split: option.splits if_splits)

lemma dealBreakerEffect_frame:
  assumes "dealBreakerEffect s pa = Inr e"
  shows "activePlayerIndex e = activePlayerIndex s \<and> deck e = deck s \<and>
    discardPile e = discardPile s \<and> phase e = phase s \<and>
    actionsRemaining e = actionsRemaining s \<and> winner e = winner s \<and>
    multiplayerRole e = multiplayerRole s \<and> pendingAction e = pendingAction s \<and>
    length (players e) = length (players s)"
  using assms by (auto simp: dealBreakerEffect_def Let_def split: option.splits if_splits)

lemma applyEffect_frame:
  assumes "applyEffect s pa = Inr e"
  shows "activePlayerIndex e = activePlayerIndex s \<and> deck e = deck s \<and>
    discardPile e = discardPile s \<and> phase e = phase s \<and>
    actionsRemaining e = actionsRemaining s \<and> winner e = winner s \<and>
    multiplayerRole e = multiplayerRole s \<and> pendingAction e = pendingAction s \<and>
    length (players e) = length (players s)"
proof (cases "pa_type pa")
  case FORCE_DEAL
  with assms forceDealEffect_frame [of s pa e] show ?thesis by (simp add: applyEffect_def)
next
  case SLY_DEAL
  with assms slyDealEffect_frame [of s pa e] show ?thesis by (simp add: applyEffect_def)
next
  case DEAL_BREAKER
  with assms dealBreakerEffect_frame [of s pa e] show ?thesis by (simp add: applyEffect_def)
next
  case RENT_ALL
  with assms show ?thesis by (simp add: applyEffect_def)
next
  case DEBT_COLLECTOR
  with assms paymentEffect_frame [of 5 _ s pa e] show ?thesis by (simp add: applyEffect_def)
next
  case BIRTHDAY
  with assms paymentEffect_frame [of 2 _ s pa e] show ?thesis by (simp add: applyEffect_def)
qed

lemma applyEffect_total:
  assumes "length (players s) = 2" and "attackerIndex pa = 0 \<or> attackerIndex pa = 1"
  shows "\<exists>e. applyEffect s pa = Inr e"
proof -
  from at_index_two [OF assms] obtain x y where
    xy: "at_index (players s) (attackerIndex pa) = Some x"
        "at_index (players s) (1 - attackerIndex pa) = Some y" by blast
  show ?thesis
  proof (cases "pa_type pa")
    case FORCE_DEAL
    with xy show ?thesis
      by (simp add: applyEffect_def forceDealEffect_def Let_def split: option.splits)
  next
    case SLY_DEAL
    with xy show ?thesis
      by (simp add: applyEffect_def slyDealEffect_def Let_def split: option.splits)
  next
    case DEAL_BREAKER
    with xy show ?thesis
      by (simp add: applyEffect_def dealBreakerEffect_def Let_def split: option.splits)
  next
    case RENT_ALL
    then show ?thesis by (simp add: applyEffect_def)
  next
    case DEBT_COLLECTOR
    with xy show ?thesis by (simp add: applyEffect_def paymentEffect_def Let_def)
  next
    case BIRTHDAY
    with xy show ?thesis by (simp add: applyEffect_def paymentEffect_def Let_def)
  qed
qed

lemma assignColor_findIndex:
  "(case findIndex (\<lambda>p. color p = col) ps of
      None \<Rightarrow> pushNewSet ps col c
    | Some j \<Rightarrow> pushToSet ps j c) = assignColor ps col c"
proof (induction ps)
  case Nil
  then show ?case by (simp add: pushNewSet_def)
next
  case (Cons q qs)
  show ?case
  proof (cases "color q = col")
    case True
    then show ?thesis by (simp add: pushToSet_def)
  next
    case False
    with Cons show ?thesis
      by (cases "findIndex (\<lambda>p. color p = col) qs") (simp_all add: pushNewSet_def pushToSet_def)
  qed
qed

text \<open>The players after the effect of an action, by the type of the action.\<close>

lemma at_index_nth:
  assumes "length xs = 2" and "i = 0 \<or> i = 1"
  shows "at_index xs i = Some (xs ! nat i)" and "at_index xs (1 - i) = Some (xs ! nat (1 - i))"
  using assms by (auto simp: at_index_def)

lemma paymentEffect_players:
  assumes "length (players s) = 2" and "attackerIndex pa = 0 \<or> attackerIndex pa = 1"
    and "paymentEffect n msg s pa = Inr e"
  shows "players e = (players s)
           [nat (attackerIndex pa) :=
              toPlayer (processPayment (players s ! nat (1 - attackerIndex pa))
                 (players s ! nat (attackerIndex pa)) n
                 (msg (player_name (players s ! nat (attackerIndex pa)))
                      (player_name (players s ! nat (1 - attackerIndex pa))) # logs s)),
            nat (1 - attackerIndex pa) :=
              fromPlayer (processPayment (players s ! nat (1 - attackerIndex pa))
                 (players s ! nat (attackerIndex pa)) n
                 (msg (player_name (players s ! nat (attackerIndex pa)))
                      (player_name (players s ! nat (1 - attackerIndex pa))) # logs s))]"
  using assms(3) at_index_nth [OF assms(1,2)]
  by (auto simp: paymentEffect_def Let_def)

lemma dealBreakerEffect_players:
  assumes "length (players s) = 2" and "attackerIndex pa = 0 \<or> attackerIndex pa = 1"
    and "dealBreakerEffect s pa = Inr e"
  shows "players e =
     (case findIndex isComplete (properties (players s ! nat (1 - attackerIndex pa))) of
        None \<Rightarrow> players s
      | Some k \<Rightarrow> (players s)
           [nat (attackerIndex pa) :=
              (players s ! nat (attackerIndex pa))
                \<lparr>properties := properties (players s ! nat (attackerIndex pa))
                    @ [properties (players s ! nat (1 - attackerIndex pa)) ! k]\<rparr>,
            nat (1 - attackerIndex pa) :=
              (players s ! nat (1 - attackerIndex pa))
                \<lparr>properties := splice1 k (properties (players s ! nat (1 - attackerIndex pa)))\<rparr>])"
  using assms(3) at_index_nth [OF assms(1,2)]
  by (auto simp: dealBreakerEffect_def Let_def split: option.splits)

lemma slyDealEffect_players:
  assumes "length (players s) = 2" and "attackerIndex pa = 0 \<or> attackerIndex pa = 1"
    and "slyDealEffect s pa = Inr e"
    and "targetSetIndex pa = Some ti"
    and "at_index (properties (players s ! nat (1 - attackerIndex pa))) ti = Some t"
  shows "players e =
     (if \<not> isComplete t \<and> 0 < length (cards t)
      then (players s)
           [nat (attackerIndex pa) :=
              giveToAttacker (players s ! nat (attackerIndex pa)) (last (cards t)),
            nat (1 - attackerIndex pa) :=
              (players s ! nat (1 - attackerIndex pa))
                \<lparr>properties := popFromSet (properties (players s ! nat (1 - attackerIndex pa)))
                                 (nat ti)\<rparr>]
      else players s)"
  using assms(3,4,5) at_index_nth [OF assms(1,2)]
  by (auto simp: slyDealEffect_def Let_def split: option.splits if_splits)

lemma forceDealEffect_players:
  assumes "length (players s) = 2" and "attackerIndex pa = 0 \<or> attackerIndex pa = 1"
    and "forceDealEffect s pa = Inr e"
    and "mySetIndex pa = Some mi" and "targetSetIndex pa = Some ti"
    and "at_index (properties (players s ! nat (attackerIndex pa))) mi = Some m"
    and "at_index (properties (players s ! nat (1 - attackerIndex pa))) ti = Some t"
  shows "players e =
     (if 0 < length (cards m) \<and> 0 < length (cards t)
      then (players s)
           [nat (attackerIndex pa) :=
              placeCard ((players s ! nat (attackerIndex pa))
                  \<lparr>properties := popFromSet (properties (players s ! nat (attackerIndex pa)))
                                   (nat mi)\<rparr>) (last (cards t)),
            nat (1 - attackerIndex pa) :=
              placeCard ((players s ! nat (1 - attackerIndex pa))
                  \<lparr>properties := popFromSet (properties (players s ! nat (1 - attackerIndex pa)))
                                   (nat ti)\<rparr>) (last (cards m))]
      else players s)"
  using assms(3-7) at_index_nth [OF assms(1,2)]
  by (auto simp: forceDealEffect_def Let_def split: option.splits if_splits)

section \<open>The cards of the examples\<close>

lemma theDeck_length: "length theDeck = 90"
  by (simp add: theDeck_def INITIAL_DECK_def copies_def)

lemma fiveM2_fields [simp]:
  "card_id fiveM2 = ''5M-2''" "card_name fiveM2 = ''5M''" "card_type fiveM2 = MONEY"
  "card_value fiveM2 = 5" "card_color fiveM2 = None" "card_secondaryColor fiveM2 = None"
  by (simp_all add: fiveM2_def createCard_def)

lemma twoM1_fields [simp]:
  "card_id twoM1 = ''2M-9''" "card_name twoM1 = ''2M''" "card_type twoM1 = MONEY"
  "card_value twoM1 = 2" "card_color twoM1 = None" "card_secondaryColor twoM1 = None"
  by (simp_all add: twoM1_def createCard_def)

lemma oneM1_fields [simp]:
  "card_id oneM1 = ''1M-14''" "card_name oneM1 = ''1M''" "card_type oneM1 = MONEY"
  "card_value oneM1 = 1" "card_color oneM1 = None" "card_secondaryColor oneM1 = None"
  by (simp_all add: oneM1_def createCard_def)

lemma oneM2_fields [simp]:
  "card_id oneM2 = ''1M-15''" "card_name oneM2 = ''1M''" "card_type oneM2 = MONEY"
  "card_value oneM2 = 1" "card_color oneM2 = None" "card_secondaryColor oneM2 = None"
  by (simp_all add: oneM2_def createCard_def)

lemma oneM3_fields [simp]:
  "card_id oneM3 = ''1M-16''" "card_name oneM3 = ''1M''" "card_type oneM3 = MONEY"
  "card_value oneM3 = 1" "card_color oneM3 = None" "card_secondaryColor oneM3 = None"
  by (simp_all add: oneM3_def createCard_def)

lemma oneM4_fields [simp]:
  "card_id oneM4 = ''1M-17''" "card_name oneM4 = ''1M''" "card_type oneM4 = MONEY"
  "card_value oneM4 = 1" "card_color oneM4 = None" "card_secondaryColor oneM4 = None"
  by (simp_all add: oneM4_def createCard_def)

lemma oneM5_fields [simp]:
  "card_id oneM5 = ''1M-18''" "card_name oneM5 = ''1M''" "card_type oneM5 = MONEY"
  "card_value oneM5 = 1" "card_color oneM5 = None" "card_secondaryColor oneM5 = None"
  by (simp_all add: oneM5_def createCard_def)

lemma oneM6_fields [simp]:
  "card_id oneM6 = ''1M-19''" "card_name oneM6 = ''1M''" "card_type oneM6 = MONEY"
  "card_value oneM6 = 1" "card_color oneM6 = None" "card_secondaryColor oneM6 = None"
  by (simp_all add: oneM6_def createCard_def)

lemma dealBreaker1_fields [simp]:
  "card_id dealBreaker1 = ''Deal Breaker-20''" "card_name dealBreaker1 = ''Deal Breaker''" "card_type dealBreaker1 = ACTION"
  "card_value dealBreaker1 = 7" "card_color dealBreaker1 = None" "card_secondaryColor dealBreaker1 = None"
  by (simp_all add: dealBreaker1_def createCard_def)

lemma slyDeal1_fields [simp]:
  "card_id slyDeal1 = ''Sly Deal-22''" "card_name slyDeal1 = ''Sly Deal''" "card_type slyDeal1 = ACTION"
  "card_value slyDeal1 = 3" "card_color slyDeal1 = None" "card_secondaryColor slyDeal1 = None"
  by (simp_all add: slyDeal1_def createCard_def)

lemma forceDeal1_fields [simp]:
  "card_id forceDeal1 = ''Force Deal-25''" "card_name forceDeal1 = ''Force Deal''" "card_type forceDeal1 = ACTION"
  "card_value forceDeal1 = 3" "card_color forceDeal1 = None" "card_secondaryColor forceDeal1 = None"
  by (simp_all add: forceDeal1_def createCard_def)

lemma justSayNo1_fields [simp]:
  "card_id justSayNo1 = ''Just Say No-28''" "card_name justSayNo1 = ''Just Say No''" "card_type justSayNo1 = ACTION"
  "card_value justSayNo1 = 4" "card_color justSayNo1 = None" "card_secondaryColor justSayNo1 = None"
  by (simp_all add: justSayNo1_def createCard_def)

lemma justSayNo2_fields [simp]:
  "card_id justSayNo2 = ''Just Say No-29''" "card_name justSayNo2 = ''Just Say No''" "card_type justSayNo2 = ACTION"
  "card_value justSayNo2 = 4" "card_color justSayNo2 = None" "card_secondaryColor justSayNo2 = None"
  by (simp_all add: justSayNo2_def createCard_def)

lemma debtCollector1_fields [simp]:
  "card_id debtCollector1 = ''Debt Collector-31''" "card_name debtCollector1 = ''Debt Collector''" "card_type debtCollector1 = ACTION"
  "card_value debtCollector1 = 3" "card_color debtCollector1 = None" "card_secondaryColor debtCollector1 = None"
  by (simp_all add: debtCollector1_def createCard_def)

lemma birthday1_fields [simp]:
  "card_id birthday1 = ''It's My Birthday-34''" "card_name birthday1 = ''It's My Birthday''" "card_type birthday1 = ACTION"
  "card_value birthday1 = 2" "card_color birthday1 = None" "card_secondaryColor birthday1 = None"
  by (simp_all add: birthday1_def createCard_def)

lemma passGo1_fields [simp]:
  "card_id passGo1 = ''Pass Go-37''" "card_name passGo1 = ''Pass Go''" "card_type passGo1 = ACTION"
  "card_value passGo1 = 1" "card_color passGo1 = None" "card_secondaryColor passGo1 = None"
  by (simp_all add: passGo1_def createCard_def)

lemma passGo2_fields [simp]:
  "card_id passGo2 = ''Pass Go-38''" "card_name passGo2 = ''Pass Go''" "card_type passGo2 = ACTION"
  "card_value passGo2 = 1" "card_color passGo2 = None" "card_secondaryColor passGo2 = None"
  by (simp_all add: passGo2_def createCard_def)

lemma passGo3_fields [simp]:
  "card_id passGo3 = ''Pass Go-39''" "card_name passGo3 = ''Pass Go''" "card_type passGo3 = ACTION"
  "card_value passGo3 = 1" "card_color passGo3 = None" "card_secondaryColor passGo3 = None"
  by (simp_all add: passGo3_def createCard_def)

lemma passGo4_fields [simp]:
  "card_id passGo4 = ''Pass Go-40''" "card_name passGo4 = ''Pass Go''" "card_type passGo4 = ACTION"
  "card_value passGo4 = 1" "card_color passGo4 = None" "card_secondaryColor passGo4 = None"
  by (simp_all add: passGo4_def createCard_def)

lemma passGo5_fields [simp]:
  "card_id passGo5 = ''Pass Go-41''" "card_name passGo5 = ''Pass Go''" "card_type passGo5 = ACTION"
  "card_value passGo5 = 1" "card_color passGo5 = None" "card_secondaryColor passGo5 = None"
  by (simp_all add: passGo5_def createCard_def)

lemma passGo6_fields [simp]:
  "card_id passGo6 = ''Pass Go-42''" "card_name passGo6 = ''Pass Go''" "card_type passGo6 = ACTION"
  "card_value passGo6 = 1" "card_color passGo6 = None" "card_secondaryColor passGo6 = None"
  by (simp_all add: passGo6_def createCard_def)

lemma passGo7_fields [simp]:
  "card_id passGo7 = ''Pass Go-43''" "card_name passGo7 = ''Pass Go''" "card_type passGo7 = ACTION"
  "card_value passGo7 = 1" "card_color passGo7 = None" "card_secondaryColor passGo7 = None"
  by (simp_all add: passGo7_def createCard_def)

lemma passGo8_fields [simp]:
  "card_id passGo8 = ''Pass Go-44''" "card_name passGo8 = ''Pass Go''" "card_type passGo8 = ACTION"
  "card_value passGo8 = 1" "card_color passGo8 = None" "card_secondaryColor passGo8 = None"
  by (simp_all add: passGo8_def createCard_def)

lemma passGo9_fields [simp]:
  "card_id passGo9 = ''Pass Go-45''" "card_name passGo9 = ''Pass Go''" "card_type passGo9 = ACTION"
  "card_value passGo9 = 1" "card_color passGo9 = None" "card_secondaryColor passGo9 = None"
  by (simp_all add: passGo9_def createCard_def)

lemma passGo10_fields [simp]:
  "card_id passGo10 = ''Pass Go-46''" "card_name passGo10 = ''Pass Go''" "card_type passGo10 = ACTION"
  "card_value passGo10 = 1" "card_color passGo10 = None" "card_secondaryColor passGo10 = None"
  by (simp_all add: passGo10_def createCard_def)

lemma oldKentRoad1_fields [simp]:
  "card_id oldKentRoad1 = ''Old Kent Road-60''" "card_name oldKentRoad1 = ''Old Kent Road''" "card_type oldKentRoad1 = PROPERTY"
  "card_value oldKentRoad1 = 1" "card_color oldKentRoad1 = Some BROWN" "card_secondaryColor oldKentRoad1 = None"
  by (simp_all add: oldKentRoad1_def createCard_def)

lemma oldKentRoad2_fields [simp]:
  "card_id oldKentRoad2 = ''Old Kent Road-61''" "card_name oldKentRoad2 = ''Old Kent Road''" "card_type oldKentRoad2 = PROPERTY"
  "card_value oldKentRoad2 = 1" "card_color oldKentRoad2 = Some BROWN" "card_secondaryColor oldKentRoad2 = None"
  by (simp_all add: oldKentRoad2_def createCard_def)

lemma fleetStreet1_fields [simp]:
  "card_id fleetStreet1 = ''Fleet Street-71''" "card_name fleetStreet1 = ''Fleet Street''" "card_type fleetStreet1 = PROPERTY"
  "card_value fleetStreet1 = 3" "card_color fleetStreet1 = Some RED" "card_secondaryColor fleetStreet1 = None"
  by (simp_all add: fleetStreet1_def createCard_def)

lemma parkLane1_fields [simp]:
  "card_id parkLane1 = ''Park Lane-80''" "card_name parkLane1 = ''Park Lane''" "card_type parkLane1 = PROPERTY"
  "card_value parkLane1 = 4" "card_color parkLane1 = Some DARK_BLUE" "card_secondaryColor parkLane1 = None"
  by (simp_all add: parkLane1_def createCard_def)

lemma parkLane2_fields [simp]:
  "card_id parkLane2 = ''Park Lane-81''" "card_name parkLane2 = ''Park Lane''" "card_type parkLane2 = PROPERTY"
  "card_value parkLane2 = 4" "card_color parkLane2 = Some DARK_BLUE" "card_secondaryColor parkLane2 = None"
  by (simp_all add: parkLane2_def createCard_def)

lemma waterWorks1_fields [simp]:
  "card_id waterWorks1 = ''Water Works-86''" "card_name waterWorks1 = ''Water Works''" "card_type waterWorks1 = PROPERTY"
  "card_value waterWorks1 = 2" "card_color waterWorks1 = Some UTILITY" "card_secondaryColor waterWorks1 = None"
  by (simp_all add: waterWorks1_def createCard_def)

lemma waterWorks2_fields [simp]:
  "card_id waterWorks2 = ''Water Works-87''" "card_name waterWorks2 = ''Water Works''" "card_type waterWorks2 = PROPERTY"
  "card_value waterWorks2 = 2" "card_color waterWorks2 = Some UTILITY" "card_secondaryColor waterWorks2 = None"
  by (simp_all add: waterWorks2_def createCard_def)

lemma wildDarkBlueGreen_fields [simp]:
  "card_id wildDarkBlueGreen = ''Dark Blue/Green Wild-88''" "card_name wildDarkBlueGreen = ''Dark Blue/Green Wild''" "card_type wildDarkBlueGreen = WILD"
  "card_value wildDarkBlueGreen = 4" "card_color wildDarkBlueGreen = Some DARK_BLUE" "card_secondaryColor wildDarkBlueGreen = Some GREEN"
  by (simp_all add: wildDarkBlueGreen_def createCard_def)

lemma wildLightBlueBrown_fields [simp]:
  "card_id wildLightBlueBrown = ''Light Blue/Brown Wild-89''" "card_name wildLightBlueBrown = ''Light Blue/Brown Wild''" "card_type wildLightBlueBrown = WILD"
  "card_value wildLightBlueBrown = 1" "card_color wildLightBlueBrown = Some LIGHT_BLUE" "card_secondaryColor wildLightBlueBrown = Some BROWN"
  by (simp_all add: wildLightBlueBrown_def createCard_def)

lemma named_cards: "map (\<lambda>i. theDeck ! i) [2, 9, 14, 15, 16, 17, 18, 19, 20, 22, 25, 28, 29, 31, 34, 37, 38, 39, 40, 41, 42, 43, 44, 45, 46, 60, 61, 71, 80, 81, 86, 87, 88, 89] = [fiveM2, twoM1, oneM1, oneM2, oneM3, oneM4, oneM5, oneM6, dealBreaker1, slyDeal1, forceDeal1, justSayNo1, justSayNo2, debtCollector1, birthday1, passGo1, passGo2, passGo3, passGo4, passGo5, passGo6, passGo7, passGo8, passGo9, passGo10, oldKentRoad1, oldKentRoad2, fleetStreet1, parkLane1, parkLane2, waterWorks1, waterWorks2, wildDarkBlueGreen, wildLightBlueBrown]"
  by code_simp

lemma deck_nth [simp]:
  "theDeck ! 2 = fiveM2"
  "theDeck ! 9 = twoM1"
  "theDeck ! 14 = oneM1"
  "theDeck ! 15 = oneM2"
  "theDeck ! 16 = oneM3"
  "theDeck ! 17 = oneM4"
  "theDeck ! 18 = oneM5"
  "theDeck ! 19 = oneM6"
  "theDeck ! 20 = dealBreaker1"
  "theDeck ! 22 = slyDeal1"
  "theDeck ! 25 = forceDeal1"
  "theDeck ! 28 = justSayNo1"
  "theDeck ! 29 = justSayNo2"
  "theDeck ! 31 = debtCollector1"
  "theDeck ! 34 = birthday1"
  "theDeck ! 37 = passGo1"
  "theDeck ! 38 = passGo2"
  "theDeck ! 39 = passGo3"
  "theDeck ! 40 = passGo4"
  "theDeck ! 41 = passGo5"
  "theDeck ! 42 = passGo6"
  "theDeck ! 43 = passGo7"
  "theDeck ! 44 = passGo8"
  "theDeck ! 45 = passGo9"
  "theDeck ! 46 = passGo10"
  "theDeck ! 60 = oldKentRoad1"
  "theDeck ! 61 = oldKentRoad2"
  "theDeck ! 71 = fleetStreet1"
  "theDeck ! 80 = parkLane1"
  "theDeck ! 81 = parkLane2"
  "theDeck ! 86 = waterWorks1"
  "theDeck ! 87 = waterWorks2"
  "theDeck ! 88 = wildDarkBlueGreen"
  "theDeck ! 89 = wildLightBlueBrown"
  using named_cards by simp_all

lemma mset_front_rest:
  assumes "distinct front" and "\<forall>i\<in>set front. i < n"
  shows "mset (front @ filter (\<lambda>i. i \<notin> set front) [0..<n]) = mset [0..<n]"
proof -
  have "set front = set (filter (\<lambda>i. i \<in> set front) [0..<n])"
    using assms(2) by auto
  moreover have "distinct (filter (\<lambda>i. i \<in> set front) [0..<n])" by simp
  ultimately have "mset front = mset (filter (\<lambda>i. i \<in> set front) [0..<n])"
    using assms(1) by (simp only: set_eq_iff_mset_eq_distinct [symmetric])
  then have "mset (front @ filter (\<lambda>i. i \<notin> set front) [0..<n])
      = filter_mset (\<lambda>i. i \<in> set front) (mset [0..<n])
        + filter_mset (\<lambda>i. \<not> i \<in> set front) (mset [0..<n])"
    by simp
  also have "\<dots> = mset [0..<n]" by (rule multiset_partition [symmetric])
  finally show ?thesis .
qed

lemma toFront_shuffle:
  assumes "distinct front" and "\<forall>i\<in>set front. i < length theDeck"
  shows "mset (toFront front) = mset theDeck"
proof -
  have "toFront front = map (\<lambda>i. theDeck ! i) (front @ filter (\<lambda>i. i \<notin> set front) [0..<length theDeck])"
    by (simp add: toFront_def restOf_def)
  then have "mset (toFront front)
      = image_mset (\<lambda>i. theDeck ! i) (mset (front @ filter (\<lambda>i. i \<notin> set front) [0..<length theDeck]))"
    by (simp only: mset_map)
  also have "\<dots> = image_mset (\<lambda>i. theDeck ! i) (mset [0..<length theDeck])"
    by (simp only: mset_front_rest [OF assms])
  also have "\<dots> = mset (map (\<lambda>i. theDeck ! i) [0..<length theDeck])" by simp
  also have "\<dots> = mset theDeck" by (simp only: map_nth)
  finally show ?thesis .
qed

lemmas engine_defs = initializeGame_def initialApp_def toFront_def
  startTurn_def endTurn_def executeMove_def resolvePendingAction_def handleRentCollection_def
  initiateForceDeal_def initiateSlyDeal_def selectMySet_def
  checked_def checkWinCondition_def at_index_def setPlayer_def truthy_def js_rem_def
  moveBank_def moveProperty_def removeFromHand_def wasted_def newPending_def playForceDeal_def
  playSlyDeal_def contestedType_def playOther_def finalResponse_def currentJsnStack_def
  responderIndex_def blockedOutcome_def executedOutcome_def applyEffect_def paymentEffect_def
  forceDealEffect_def slyDealEffect_def dealBreakerEffect_def placeCard_def giveToAttacker_def
  processPayment_def bankLoop.simps bankCond_def bankStep_def propertyLoop.simps propertyCond_def
  propertyStep_def pushToSet_def pushNewSet_def popFromSet_def splice1_def targetColorOf_def
  show_int_def digits.simps Let_def stateAfter_def snapshot_def

lemma shuffles:
  "mset (toFront frontA) = mset theDeck" "mset (toFront frontB) = mset theDeck"
  "mset (toFront frontC) = mset theDeck" "mset (toFront frontD) = mset theDeck"
  "mset (toFront frontE) = mset theDeck" "mset (toFront frontF) = mset theDeck"
  "mset (toFront frontG) = mset theDeck"
  by (rule toFront_shuffle; simp add: theDeck_length frontA_def frontB_def frontC_def frontD_def frontE_def frontF_def frontG_def)+

lemmas exampleA = startA_def frontA_def opsA_def engine_defs

lemmas exampleG = startG_def frontG_def opsG_def opsG'_def engine_defs

text \<open>
  The states of example G at the stack of 1 and at the stack of 2, up to the log.
\<close>

lemma exampleG_stack1:
  "\<exists>lg. stateAfter opsG startG =
      \<lparr>gameState = Some
          \<lparr>players =
             [\<lparr>player_id = ''p1'', player_name = ''Player 1'',
                 hand = [justSayNo1, oneM1, oneM2, oneM3, passGo1, passGo2, passGo5, passGo6],
                 bank = [], properties = [], isAI = False\<rparr>,
              \<lparr>player_id = ''p2'', player_name = ''Player 2'',
                 hand = [oneM4, oneM5, passGo3, passGo4],
                 bank = [fiveM2, twoM1], properties = [], isAI = False\<rparr>],
             activePlayerIndex = 0, deck = restOf frontG,
             discardPile = [justSayNo2], phase = PLAY_PHASE, actionsRemaining = 3,
             logs = lg, winner = None, multiplayerRole = None,
             pendingAction =
               Some \<lparr>pa_type = DEBT_COLLECTOR, pa_card = debtCollector1,
                      attackerIndex = 0, targetIndex = None, targetSetIndex = None,
                      mySetIndex = None, jsnStack = Some 1\<rparr>\<rparr>,
         pendingRentCard = None, pendingForceDeal = None, pendingSlyDeal = None\<rparr>"
  by (simp add: exampleG)

lemma exampleG_stack2:
  "\<exists>lg. stateAfter opsG' startG =
      \<lparr>gameState = Some
          \<lparr>players =
             [\<lparr>player_id = ''p1'', player_name = ''Player 1'',
                 hand = [oneM1, oneM2, oneM3, passGo1, passGo2, passGo5, passGo6],
                 bank = [], properties = [], isAI = False\<rparr>,
              \<lparr>player_id = ''p2'', player_name = ''Player 2'',
                 hand = [oneM4, oneM5, passGo3, passGo4],
                 bank = [fiveM2, twoM1], properties = [], isAI = False\<rparr>],
             activePlayerIndex = 0, deck = restOf frontG,
             discardPile = [justSayNo2, justSayNo1], phase = PLAY_PHASE, actionsRemaining = 3,
             logs = lg, winner = None, multiplayerRole = None,
             pendingAction =
               Some \<lparr>pa_type = DEBT_COLLECTOR, pa_card = debtCollector1,
                      attackerIndex = 0, targetIndex = None, targetSetIndex = None,
                      mySetIndex = None, jsnStack = Some 2\<rparr>\<rparr>,
         pendingRentCard = None, pendingForceDeal = None, pendingSlyDeal = None\<rparr>"
  by (simp add: exampleG)

section \<open>Cards and names through the operations\<close>





lemma containerCards_fields [simp]:
  "containerCards (s\<lparr>logs := l\<rparr>) = containerCards s"
  "containerCards (s\<lparr>actionsRemaining := n\<rparr>) = containerCards s"
  "containerCards (s\<lparr>pendingAction := pa\<rparr>) = containerCards s"
  "containerCards (s\<lparr>phase := ph\<rparr>) = containerCards s"
  "containerCards (s\<lparr>winner := w\<rparr>) = containerCards s"
  "containerCards (s\<lparr>activePlayerIndex := i\<rparr>) = containerCards s"
  "containerCards (s\<lparr>discardPile := d\<rparr>) + mset (discardPile s) = containerCards s + mset d"
  by (simp_all add: containerCards_def)

lemma containerCards_discard [simp]:
  "containerCards (s\<lparr>discardPile := discardPile s @ [c]\<rparr>) = containerCards s + {#c#}"
  by (simp add: containerCards_def)





lemma placeCard_name [simp]: "player_name (placeCard p c) = player_name p"
  by (simp add: placeCard_def Let_def split: option.splits)

lemma giveToAttacker_name [simp]: "player_name (giveToAttacker p c) = player_name p"
  by (simp add: giveToAttacker_def Let_def split: option.splits)











lemma sameTable_refl [simp]: "sameTable s s"
  by (simp add: sameTable_def)

lemma sameTable_trans: "sameTable s t \<Longrightarrow> sameTable t u \<Longrightarrow> sameTable s u"
  by (simp add: sameTable_def)

lemma sameTable_fields [simp]:
  "sameTable s (t\<lparr>logs := l\<rparr>) = sameTable s t"
  "sameTable s (t\<lparr>actionsRemaining := n\<rparr>) = sameTable s t"
  "sameTable s (t\<lparr>pendingAction := pa\<rparr>) = sameTable s t"
  "sameTable s (t\<lparr>discardPile := d\<rparr>) = sameTable s t"
  "sameTable s (t\<lparr>deck := dk\<rparr>) = sameTable s t"
  by (simp_all add: sameTable_def)

lemma pendingCard_fields [simp]:
  "pendingCard (s\<lparr>logs := l\<rparr>) = pendingCard s"
  "pendingCard (s\<lparr>actionsRemaining := n\<rparr>) = pendingCard s"
  "pendingCard (s\<lparr>discardPile := d\<rparr>) = pendingCard s"
  "pendingCard (s\<lparr>deck := dk\<rparr>) = pendingCard s"
  "pendingCard (s\<lparr>phase := ph\<rparr>) = pendingCard s"
  "pendingCard (s\<lparr>activePlayerIndex := i\<rparr>) = pendingCard s"
  "pendingCard (setPlayer i p s) = pendingCard s"
  "pendingCard (s\<lparr>pendingAction := None\<rparr>) = {#}"
  "pendingCard (s\<lparr>pendingAction := Some pa\<rparr>) = {#pa_card pa#}"
  by (simp_all add: pendingCard_def optCard_def)








lemma removeFromHand_pending [simp]: "pendingAction (removeFromHand s p i) = pendingAction s"
  by (simp add: removeFromHand_def)

lemma removeFromHand_discard [simp]: "discardPile (removeFromHand s p i) = discardPile s"
  by (simp add: removeFromHand_def)


lemma wasted_facts [simp]:
  "containerCards (wasted msg c t) = containerCards t + {#c#}"
  "pendingCard (wasted msg c t) = pendingCard t"
  "sameTable s (wasted msg c t) = sameTable s t"
  by (simp_all add: wasted_def containerCards_def)




lemma wasted_pending [simp]: "pendingAction (wasted msg c t) = pendingAction t"
  by (simp add: wasted_def)





lemma checkWinCondition_cards:
  assumes "checkWinCondition t = Inr s'"
  shows "containerCards s' = containerCards t" and "pendingCard s' = pendingCard t"
  using checkWinCondition_frame [OF assms]
  by (simp_all add: containerCards_def pendingCard_def)



lemma winStep_refl [simp]: "winStep s s"
  by (simp add: winStep_def)





section \<open>The winner and the phase\<close>








section \<open>Steps that end with the check for a win\<close>




section \<open>Runs\<close>









section \<open>Claims\<close>

text \<open>
  C4. Settlement: the debtor's bank is sorted ascending by value and a prefix of it moves, card by
  card, to the end of the creditor's bank; the prefix ends as soon as the debt left is \<open>\<le> 0\<close>
  or the bank is empty, so the card that overpays still moves whole. What the debtor keeps is
  part of what the debtor had (no container goes below empty), the hand is not touched, and the
  value the creditor receives is at least \<open>min amount (assetValue debtor)\<close>.
\<close>

theorem processPayment_settlement:
  "sorted (map card_value (sort_key card_value (bank debtor))) \<and>
   mset (sort_key card_value (bank debtor)) = mset (bank debtor) \<and>
   (\<exists>k\<le>length (bank debtor).
      bank (toPlayer (processPayment debtor creditor amount lg))
        = bank creditor @ take k (sort_key card_value (bank debtor)) \<and>
      bank (fromPlayer (processPayment debtor creditor amount lg))
        = drop k (sort_key card_value (bank debtor)) \<and>
      (\<forall>j<k. 0 < amount - cardsValue (take j (sort_key card_value (bank debtor)))) \<and>
      (k < length (bank debtor) \<longrightarrow>
         amount - cardsValue (take k (sort_key card_value (bank debtor))) \<le> 0)) \<and>
   mset (bank (fromPlayer (processPayment debtor creditor amount lg))) \<subseteq># mset (bank debtor) \<and>
   setsCards (properties (fromPlayer (processPayment debtor creditor amount lg)))
     \<subseteq># setsCards (properties debtor) \<and>
   hand (fromPlayer (processPayment debtor creditor amount lg)) = hand debtor \<and>
   min amount (assetValue debtor)
     \<le> assetValue (toPlayer (processPayment debtor creditor amount lg)) - assetValue creditor"
proof -
  let ?srt = "sort_key card_value (bank debtor)"
  let ?ini = "\<lparr>fromPlayer = debtor\<lparr>bank := ?srt\<rparr>,
               toPlayer = creditor, remaining = amount, log_p = lg\<rparr>"
  let ?st = "processPayment debtor creditor amount lg"
  have st: "?st = propertyLoop (bankLoop ?ini)" by (simp add: processPayment_def)
  from bankLoop_prefix [of ?ini] obtain k where k: "k \<le> length (bank debtor)"
    "bank (toPlayer (bankLoop ?ini)) = bank creditor @ take k ?srt"
    "bank (fromPlayer (bankLoop ?ini)) = drop k ?srt"
    "\<forall>j<k. 0 < amount - cardsValue (take j ?srt)"
    "k < length (bank debtor) \<longrightarrow> amount - cardsValue (take k ?srt) \<le> 0"
    by auto
  have b1: "bank (toPlayer ?st) = bank creditor @ take k ?srt"
    using k(2) by (simp add: st propertyLoop_banks)
  have b2: "bank (fromPlayer ?st) = drop k ?srt"
    using k(3) by (simp add: st propertyLoop_banks)
  have ex: "\<exists>k\<le>length (bank debtor).
      bank (toPlayer ?st) = bank creditor @ take k ?srt \<and>
      bank (fromPlayer ?st) = drop k ?srt \<and>
      (\<forall>j<k. 0 < amount - cardsValue (take j ?srt)) \<and>
      (k < length (bank debtor) \<longrightarrow> amount - cardsValue (take k ?srt) \<le> 0)"
    by (rule exI [of _ k]) (intro conjI k(1) b1 b2 k(4) k(5))
  have "mset (take k ?srt @ drop k ?srt) = mset ?srt"
    by (simp only: append_take_drop_id)
  then have "mset (take k ?srt) + mset (drop k ?srt) = mset ?srt"
    by (simp only: mset_append)
  then have "mset (drop k ?srt) \<subseteq># mset ?srt"
    by (metis mset_subset_eq_add_right)
  then have sub1: "mset (bank (fromPlayer ?st)) \<subseteq># mset (bank debtor)"
    by (simp add: b2)
  have sub2: "setsCards (properties (fromPlayer ?st)) \<subseteq># setsCards (properties debtor)"
    using propertyLoop_subset [of "bankLoop ?ini"] by (simp add: st bankLoop_frame)
  have hd: "hand (fromPlayer ?st) = hand debtor"
    by (simp add: st propertyLoop_banks bankLoop_frame)
  have srt: "sorted (map card_value ?srt)" by simp
  have ms: "mset ?srt = mset (bank debtor)" by simp
  from srt ms ex sub1 sub2 hd processPayment_received [of amount debtor creditor lg]
  show ?thesis by (intro conjI)
qed

text \<open>
  The example of the specification: a bank of 5M and 2M against a debt of 5 loses both cards,
  the 2M first, and the creditor receives 7.
\<close>

theorem processPayment_settlement_witness:
  "bank (toPlayer (processPayment debtor0 creditor0 5 [])) = [money2, money5] \<and>
   bank (fromPlayer (processPayment debtor0 creditor0 5 [])) = [] \<and>
   0 < 5 - cardsValue (take 1 (sort_key card_value (bank debtor0))) \<and>
   min 5 (assetValue debtor0) = 5 \<and>
   assetValue (toPlayer (processPayment debtor0 creditor0 5 [])) - assetValue creditor0 = 7"
  using processPayment_settlement [of debtor0 creditor0 5 "[]"]
  by (simp add: eval_defs assetValue_def cardsValue_def setsValue_def)

text \<open>
  C10. processPayment terminates on every input: a pass of the first loop takes exactly one
  card from the debtor's bank, a pass of the second exactly one card from the debtor's
  properties, the second loop breaks exactly when no set holds a card, and each loop, run
  with as many passes as the debtor has cards there, has exited with the result of
  processPayment. Nothing is assumed of the amount or of the values of the cards.
\<close>

theorem processPayment_terminates:
  "(bankCond st \<longrightarrow>
      Suc (length (bank (fromPlayer (bankStep st)))) = length (bank (fromPlayer st)) \<and>
      properties (fromPlayer (bankStep st)) = properties (fromPlayer st)) \<and>
   (propertyStep st = Some st' \<longrightarrow>
      Suc (setCards (properties (fromPlayer st'))) = setCards (properties (fromPlayer st)) \<and>
      bank (fromPlayer st') = bank (fromPlayer st)) \<and>
   (propertyStep st = None \<longleftrightarrow> (\<forall>p\<in>set (properties (fromPlayer st)). cards p = [])) \<and>
   bankIter (length (bank (fromPlayer st))) st = Some (bankLoop st) \<and>
   propertyIter (setCards (properties (fromPlayer st))) st = Some (propertyLoop st) \<and>
   processPaymentIter (length (bank d) + setCards (properties d)) d c amount lg
     = Some (processPayment d c amount lg)"
  using bankStep_bank [of st] bankStep_properties [of st]
    propertyStep_decreases [of st st'] propertyStep_bank [of st st']
    propertyStep_None [of st] bankIter_enough [of st "length (bank (fromPlayer st))"]
    propertyIter_enough [of st "setCards (properties (fromPlayer st))"]
    processPaymentIter_enough [of d c amount lg]
  by simp

text \<open>
  A debt of 100 against a bank of 2M and a zero-value card and a single property: every card
  goes, in three passes.
\<close>

theorem processPayment_terminates_witness:
  "bankCond payment1 \<and>
   Suc (length (bank (fromPlayer (bankStep payment1)))) = length (bank (fromPlayer payment1)) \<and>
   propertyStep payment1 \<noteq> None \<and>
   Suc (setCards (properties (fromPlayer (the (propertyStep payment1)))))
     = setCards (properties (fromPlayer payment1)) \<and>
   (\<exists>p\<in>set (properties (fromPlayer payment1)). cards p \<noteq> []) \<and>
   processPaymentIter 3 debtor1 creditor0 100 [] = Some (processPayment debtor1 creditor0 100 [])"
proof -
  have a: "bankCond payment1"
    by (simp add: payment1_def bankCond_def debtor1_def)
  obtain st' where b: "propertyStep payment1 = Some st'"
    by (simp add: payment1_def propertyStep_def debtor1_def Let_def)
  have c: "length (bank debtor1) + setCards (properties debtor1) = 3"
    by (simp add: debtor1_def setCards_def)
  from processPayment_terminates [of payment1 st' debtor1 creditor0 100 "[]"] a b c
  show ?thesis by simp
qed

text \<open>
  C6. A move is a no-op, with no exception, when the phase is not the play phase, or no
  action is left, or a winner is set, or an action is pending, or the card is not in the hand
  of the acting player. A winner is the name of a player, and no player has the empty name;
  the acting player exists.
\<close>

theorem executeMove_rejected:
  assumes "gameState a = Some s"
    and "at_index (players s) (activePlayerIndex s) = Some p"
    and "winner s \<noteq> Some []"
    and "phase s \<noteq> PLAY_PHASE \<or> actionsRemaining s \<le> 0 \<or> winner s \<noteq> None \<or>
         pendingAction s \<noteq> None \<or> cardId \<notin> card_id ` set (hand p)"
  shows "executeMove u1 u2 ty cardId a = Inr a"
proof (cases "actionsRemaining s \<le> 0 \<or> phase s \<noteq> PLAY_PHASE \<or> truthy (winner s)
              \<or> pendingAction s \<noteq> None")
  case True
  with assms(1) show ?thesis by (simp add: executeMove_def)
next
  case False
  with assms(3,4) have "cardId \<notin> card_id ` set (hand p)"
    by (auto simp: truthy_def split: option.splits)
  then have "findIndex (\<lambda>c. card_id c = cardId) (hand p) = None"
    by (auto simp: findIndex_None)
  with False assms(1,2) show ?thesis by (simp add: executeMove_def)
qed

text \<open>
  In example A, after the first draw, player 1 holds no Park Lane: the move changes nothing.
\<close>

theorem executeMove_rejected_witness:
  "phase (snapshot (stateAfter [StartTurn] startA)) = PLAY_PHASE \<and>
   ''Park Lane-80'' \<notin> card_id ` set (hand (players (snapshot (stateAfter [StartTurn] startA)) ! 0)) \<and>
   executeMove 0 0 PROPERTY_move ''Park Lane-80'' (stateAfter [StartTurn] startA)
     = Inr (stateAfter [StartTurn] startA)"
proof -
  let ?a = "stateAfter [StartTurn] startA"
  have g: "gameState ?a = Some (snapshot ?a)" by (simp add: exampleA)
  have p: "at_index (players (snapshot ?a)) (activePlayerIndex (snapshot ?a))
             = Some (players (snapshot ?a) ! 0)" by (simp add: exampleA)
  have w: "winner (snapshot ?a) \<noteq> Some []" by (simp add: exampleA)
  have ph: "phase (snapshot ?a) = PLAY_PHASE" by (simp add: exampleA)
  have c: "''Park Lane-80'' \<notin> card_id ` set (hand (players (snapshot ?a) ! 0))"
    by (simp add: exampleA)
  from c have "phase (snapshot ?a) \<noteq> PLAY_PHASE \<or> actionsRemaining (snapshot ?a) \<le> 0 \<or>
      winner (snapshot ?a) \<noteq> None \<or> pendingAction (snapshot ?a) \<noteq> None \<or>
      ''Park Lane-80'' \<notin> card_id ` set (hand (players (snapshot ?a) ! 0))" by blast
  from executeMove_rejected [OF g p w this] ph c show ?thesis by blast
qed

text \<open>
  C2. The final response to a pending action, one that plays no counter: on an odd stack the
  action is blocked and no player changes; on an even stack its effect is applied and the
  win is checked. Either way the triggering card is pushed on the discard pile, the pending
  action is cleared and one action is consumed. What the executed effect does to the players
  is given type by type: a Debt Collector settles 5M and It's My Birthday 2M from the
  opponent to the attacker, who receives the amount or all the opponent owns; a Deal Breaker
  moves the opponent's first complete set to the attacker; a Sly Deal moves the last card of
  the targeted incomplete set; a Force Deal swaps the last cards of the two chosen sets.
\<close>

theorem resolvePendingAction_final:
  assumes "gameState a = Some s" and "pendingAction s = Some pa"
    and "length (players s) = 2"
    and "attackerIndex pa = 0 \<or> attackerIndex pa = 1"
    and "activePlayerIndex s = 0 \<or> activePlayerIndex s = 1"
    and "\<not> useJSN \<or>
         (\<forall>p. at_index (players s) (responderIndex pa) = Some p \<longrightarrow>
              (\<forall>c\<in>set (hand p). card_name c \<noteq> ''Just Say No''))"
  shows "let ai = attackerIndex pa;
             att = players s ! nat ai;
             opp = players s ! nat (1 - ai);
             pay5 = processPayment opp att 5
                      ((player_name att @ '' used Debt Collector: '' @ player_name opp
                          @ '' owes 5M.'') # logs s);
             pay2 = processPayment opp att 2
                      ((player_name att @ '' used It's My Birthday! '' @ player_name opp
                          @ '' owes 2M.'') # logs s)
         in \<exists>s'. resolvePendingAction useJSN a = Inr (a\<lparr>gameState := Some s'\<rparr>) \<and>
           discardPile s' = discardPile s @ [pa_card pa] \<and>
           pendingAction s' = None \<and>
           actionsRemaining s' = actionsRemaining s - 1 \<and>
           (odd (currentJsnStack pa) \<longrightarrow> s' = blockedOutcome s pa \<and> players s' = players s) \<and>
           (even (currentJsnStack pa) \<longrightarrow>
              (\<exists>e. applyEffect s pa = Inr e \<and> checkWinCondition (executedOutcome e pa) = Inr s') \<and>
              (pa_type pa = DEBT_COLLECTOR \<longrightarrow>
                 players s' = (players s)[nat ai := toPlayer pay5, nat (1 - ai) := fromPlayer pay5] \<and>
                 logs s' = log_p pay5 \<and>
                 min 5 (assetValue opp) \<le> assetValue (players s' ! nat ai) - assetValue att) \<and>
              (pa_type pa = BIRTHDAY \<longrightarrow>
                 players s' = (players s)[nat ai := toPlayer pay2, nat (1 - ai) := fromPlayer pay2] \<and>
                 logs s' = log_p pay2 \<and>
                 min 2 (assetValue opp) \<le> assetValue (players s' ! nat ai) - assetValue att) \<and>
              (pa_type pa = DEAL_BREAKER \<longrightarrow>
                 players s' =
                   (case findIndex isComplete (properties opp) of
                      None \<Rightarrow> players s
                    | Some k \<Rightarrow> (players s)
                        [nat ai := att\<lparr>properties := properties att @ [properties opp ! k]\<rparr>,
                         nat (1 - ai) := opp\<lparr>properties := splice1 k (properties opp)\<rparr>])) \<and>
              (pa_type pa = SLY_DEAL \<longrightarrow>
                 (\<forall>ti t. targetSetIndex pa = Some ti \<longrightarrow> at_index (properties opp) ti = Some t \<longrightarrow>
                    players s' =
                      (if \<not> isComplete t \<and> 0 < length (cards t)
                       then (players s)
                         [nat ai := giveToAttacker att (last (cards t)),
                          nat (1 - ai) := opp\<lparr>properties := popFromSet (properties opp) (nat ti)\<rparr>]
                       else players s))) \<and>
              (pa_type pa = FORCE_DEAL \<longrightarrow>
                 (\<forall>mi ti m t. mySetIndex pa = Some mi \<longrightarrow> targetSetIndex pa = Some ti \<longrightarrow>
                    at_index (properties att) mi = Some m \<longrightarrow>
                    at_index (properties opp) ti = Some t \<longrightarrow>
                    players s' =
                      (if 0 < length (cards m) \<and> 0 < length (cards t)
                       then (players s)
                         [nat ai := placeCard (att\<lparr>properties := popFromSet (properties att) (nat mi)\<rparr>)
                                      (last (cards t)),
                          nat (1 - ai) := placeCard (opp\<lparr>properties := popFromSet (properties opp) (nat ti)\<rparr>)
                                      (last (cards m))]
                       else players s))))"
proof -
  let ?ai = "attackerIndex pa"
  let ?att = "players s ! nat ?ai"
  let ?opp = "players s ! nat (1 - ?ai)"
  have resp: "\<exists>p. at_index (players s) (responderIndex pa) = Some p"
    using at_index_two [OF assms(3,4)] by (auto simp: responderIndex_def Let_def)
  have fin: "resolvePendingAction useJSN a = finalResponse a s pa"
  proof (cases useJSN)
    case False
    with assms(1,2) show ?thesis by (simp add: resolvePendingAction_def)
  next
    case True
    from resp obtain p where p: "at_index (players s) (responderIndex pa) = Some p" by blast
    with True assms(6) have "\<forall>c\<in>set (hand p). card_name c \<noteq> ''Just Say No''" by blast
    then have "findIndex (\<lambda>c. card_name c = ''Just Say No'') (hand p) = None"
      by (auto simp: findIndex_None)
    with True assms(1,2) p show ?thesis by (simp add: resolvePendingAction_def)
  qed
  have idx: "nat ?ai < length (players s)" "nat ?ai \<noteq> nat (1 - ?ai)"
    using assms(3,4) by auto
  show ?thesis
  proof (cases "odd (currentJsnStack pa)")
    case True
    then have "currentJsnStack pa mod 2 = 1" by (simp add: odd_iff_mod_2_eq_one)
    then have "finalResponse a s pa = Inr (a\<lparr>gameState := Some (blockedOutcome s pa)\<rparr>)"
      by (simp add: finalResponse_def)
    with fin True show ?thesis
      unfolding Let_def
      by (intro exI [of _ "blockedOutcome s pa"]) (simp add: blockedOutcome_def)
  next
    case False
    then have ev: "currentJsnStack pa mod 2 \<noteq> 1" by (simp add: odd_iff_mod_2_eq_one)
    from applyEffect_total [OF assms(3,4)] obtain e where e: "applyEffect s pa = Inr e" by blast
    from applyEffect_frame [OF e] assms(3,5)
    have "at_index (players (executedOutcome e pa)) (activePlayerIndex (executedOutcome e pa)) \<noteq> None"
      by (auto simp: executedOutcome_def at_index_def)
    from checkWinCondition_total [OF this] obtain s' where
      s': "checkWinCondition (executedOutcome e pa) = Inr s'" by blast
    from ev e s' have r: "finalResponse a s pa = Inr (a\<lparr>gameState := Some s'\<rparr>)"
      by (simp add: finalResponse_def checked_def)
    from checkWinCondition_frame [OF s'] applyEffect_frame [OF e]
    have f: "discardPile s' = discardPile s @ [pa_card pa]" "pendingAction s' = None"
      "actionsRemaining s' = actionsRemaining s - 1"
      by (simp_all add: executedOutcome_def)
    from checkWinCondition_frame [OF s'] have pl: "players s' = players e" "logs s' = logs e"
      by (simp_all add: executedOutcome_def)
    let ?m5 = "\<lambda>att opp. att @ '' used Debt Collector: '' @ opp @ '' owes 5M.''"
    let ?m2 = "\<lambda>att opp. att @ '' used It's My Birthday! '' @ opp @ '' owes 2M.''"
    let ?pay5 = "processPayment ?opp ?att 5 (?m5 (player_name ?att) (player_name ?opp) # logs s)"
    let ?pay2 = "processPayment ?opp ?att 2 (?m2 (player_name ?att) (player_name ?opp) # logs s)"
    have dc: "pa_type pa = DEBT_COLLECTOR \<longrightarrow>
                 players s' = (players s)[nat ?ai := toPlayer ?pay5, nat (1 - ?ai) := fromPlayer ?pay5] \<and>
                 logs s' = log_p ?pay5 \<and>
                 min 5 (assetValue ?opp) \<le> assetValue (players s' ! nat ?ai) - assetValue ?att"
    proof
      assume "pa_type pa = DEBT_COLLECTOR"
      with e have pe: "paymentEffect 5 ?m5 s pa = Inr e" by (simp add: applyEffect_def)
      from paymentEffect_players [OF assms(3,4) pe] pl
      have 1: "players s' = (players s)[nat ?ai := toPlayer ?pay5, nat (1 - ?ai) := fromPlayer ?pay5]"
        by simp
      from pe at_index_nth [OF assms(3,4)] pl have 2: "logs s' = log_p ?pay5"
        by (auto simp: paymentEffect_def Let_def)
      from 1 idx have "players s' ! nat ?ai = toPlayer ?pay5" by simp
      with processPayment_received [of 5 ?opp ?att]
      have 3: "min 5 (assetValue ?opp) \<le> assetValue (players s' ! nat ?ai) - assetValue ?att"
        by simp
      from 1 2 3 show "players s' = (players s)[nat ?ai := toPlayer ?pay5, nat (1 - ?ai) := fromPlayer ?pay5] \<and>
                 logs s' = log_p ?pay5 \<and>
                 min 5 (assetValue ?opp) \<le> assetValue (players s' ! nat ?ai) - assetValue ?att"
        by (intro conjI)
    qed
    have bd: "pa_type pa = BIRTHDAY \<longrightarrow>
                 players s' = (players s)[nat ?ai := toPlayer ?pay2, nat (1 - ?ai) := fromPlayer ?pay2] \<and>
                 logs s' = log_p ?pay2 \<and>
                 min 2 (assetValue ?opp) \<le> assetValue (players s' ! nat ?ai) - assetValue ?att"
    proof
      assume "pa_type pa = BIRTHDAY"
      with e have pe: "paymentEffect 2 ?m2 s pa = Inr e" by (simp add: applyEffect_def)
      from paymentEffect_players [OF assms(3,4) pe] pl
      have 1: "players s' = (players s)[nat ?ai := toPlayer ?pay2, nat (1 - ?ai) := fromPlayer ?pay2]"
        by simp
      from pe at_index_nth [OF assms(3,4)] pl have 2: "logs s' = log_p ?pay2"
        by (auto simp: paymentEffect_def Let_def)
      from 1 idx have "players s' ! nat ?ai = toPlayer ?pay2" by simp
      with processPayment_received [of 2 ?opp ?att]
      have 3: "min 2 (assetValue ?opp) \<le> assetValue (players s' ! nat ?ai) - assetValue ?att"
        by simp
      from 1 2 3 show "players s' = (players s)[nat ?ai := toPlayer ?pay2, nat (1 - ?ai) := fromPlayer ?pay2] \<and>
                 logs s' = log_p ?pay2 \<and>
                 min 2 (assetValue ?opp) \<le> assetValue (players s' ! nat ?ai) - assetValue ?att"
        by (intro conjI)
    qed
    have db: "pa_type pa = DEAL_BREAKER \<longrightarrow>
                 players s' =
                   (case findIndex isComplete (properties ?opp) of
                      None \<Rightarrow> players s
                    | Some k \<Rightarrow> (players s)
                        [nat ?ai := ?att\<lparr>properties := properties ?att @ [properties ?opp ! k]\<rparr>,
                         nat (1 - ?ai) := ?opp\<lparr>properties := splice1 k (properties ?opp)\<rparr>])"
    proof
      assume "pa_type pa = DEAL_BREAKER"
      with e have "dealBreakerEffect s pa = Inr e" by (simp add: applyEffect_def)
      from dealBreakerEffect_players [OF assms(3,4) this] pl
      show "players s' =
                   (case findIndex isComplete (properties ?opp) of
                      None \<Rightarrow> players s
                    | Some k \<Rightarrow> (players s)
                        [nat ?ai := ?att\<lparr>properties := properties ?att @ [properties ?opp ! k]\<rparr>,
                         nat (1 - ?ai) := ?opp\<lparr>properties := splice1 k (properties ?opp)\<rparr>])"
        by simp
    qed
    have sd: "pa_type pa = SLY_DEAL \<longrightarrow>
                 (\<forall>ti t. targetSetIndex pa = Some ti \<longrightarrow> at_index (properties ?opp) ti = Some t \<longrightarrow>
                    players s' =
                      (if \<not> isComplete t \<and> 0 < length (cards t)
                       then (players s)
                         [nat ?ai := giveToAttacker ?att (last (cards t)),
                          nat (1 - ?ai) := ?opp\<lparr>properties := popFromSet (properties ?opp) (nat ti)\<rparr>]
                       else players s))"
    proof (intro impI allI)
      fix ti t
      assume "pa_type pa = SLY_DEAL" and ti: "targetSetIndex pa = Some ti"
        and t: "at_index (properties ?opp) ti = Some t"
      with e have "slyDealEffect s pa = Inr e" by (simp add: applyEffect_def)
      from slyDealEffect_players [OF assms(3,4) this ti t] pl
      show "players s' =
                      (if \<not> isComplete t \<and> 0 < length (cards t)
                       then (players s)
                         [nat ?ai := giveToAttacker ?att (last (cards t)),
                          nat (1 - ?ai) := ?opp\<lparr>properties := popFromSet (properties ?opp) (nat ti)\<rparr>]
                       else players s)"
        by simp
    qed
    have fd: "pa_type pa = FORCE_DEAL \<longrightarrow>
                 (\<forall>mi ti m t. mySetIndex pa = Some mi \<longrightarrow> targetSetIndex pa = Some ti \<longrightarrow>
                    at_index (properties ?att) mi = Some m \<longrightarrow>
                    at_index (properties ?opp) ti = Some t \<longrightarrow>
                    players s' =
                      (if 0 < length (cards m) \<and> 0 < length (cards t)
                       then (players s)
                         [nat ?ai := placeCard (?att\<lparr>properties := popFromSet (properties ?att) (nat mi)\<rparr>)
                                      (last (cards t)),
                          nat (1 - ?ai) := placeCard (?opp\<lparr>properties := popFromSet (properties ?opp) (nat ti)\<rparr>)
                                      (last (cards m))]
                       else players s))"
    proof (intro impI allI)
      fix mi ti m t
      assume "pa_type pa = FORCE_DEAL" and mi: "mySetIndex pa = Some mi"
        and ti: "targetSetIndex pa = Some ti"
        and m: "at_index (properties ?att) mi = Some m"
        and t: "at_index (properties ?opp) ti = Some t"
      with e have "forceDealEffect s pa = Inr e" by (simp add: applyEffect_def)
      from forceDealEffect_players [OF assms(3,4) this mi ti m t] pl
      show "players s' =
                      (if 0 < length (cards m) \<and> 0 < length (cards t)
                       then (players s)
                         [nat ?ai := placeCard (?att\<lparr>properties := popFromSet (properties ?att) (nat mi)\<rparr>)
                                      (last (cards t)),
                          nat (1 - ?ai) := placeCard (?opp\<lparr>properties := popFromSet (properties ?opp) (nat ti)\<rparr>)
                                      (last (cards m))]
                       else players s)"
        by simp
    qed
    have ex: "\<exists>e. applyEffect s pa = Inr e \<and> checkWinCondition (executedOutcome e pa) = Inr s'"
      using e s' by blast
    have res: "resolvePendingAction useJSN a = Inr (a\<lparr>gameState := Some s'\<rparr>)"
      using fin r by simp
    from False have od: "odd (currentJsnStack pa) \<longrightarrow> s' = blockedOutcome s pa \<and> players s' = players s"
      by simp
    note evb = impI [OF conjI [OF ex conjI [OF dc conjI [OF bd conjI [OF db conjI [OF sd fd]]]]],
      of "even (currentJsnStack pa)"]
    show ?thesis
      unfolding Let_def
      by (rule exI [of _ s'])
        (rule conjI [OF res conjI [OF f(1) conjI [OF f(2) conjI [OF f(3) conjI [OF od evb]]]]])
  qed
qed

text \<open>
  In example G player 2 has banked 5M and 2M when player 1 plays the Debt Collector. On the
  stack of 1 a final response blocks the action: the players are unchanged and player 2
  keeps the bank. On the stack of 2 a final response, by a player 2 who holds no other Just
  Say No, executes it: player 2 pays 2M and then 5M out of the bank, which is left empty.
\<close>

theorem resolvePendingAction_final_witness:
  "odd (currentJsnStack (the (pendingAction (snapshot (stateAfter opsG startG))))) \<and>
   map bank (players (snapshot (stateAfter opsG startG))) = [[], [fiveM2, twoM1]] \<and>
   (\<exists>s'. resolvePendingAction False (stateAfter opsG startG)
            = Inr ((stateAfter opsG startG)\<lparr>gameState := Some s'\<rparr>) \<and>
         players s' = players (snapshot (stateAfter opsG startG)) \<and>
         discardPile s' = [justSayNo2, debtCollector1] \<and> pendingAction s' = None \<and>
         actionsRemaining s' = 2) \<and>
   even (currentJsnStack (the (pendingAction (snapshot (stateAfter opsG' startG))))) \<and>
   map bank (players (snapshot (stateAfter opsG' startG))) = [[], [fiveM2, twoM1]] \<and>
   (\<exists>s'. resolvePendingAction True (stateAfter opsG' startG)
            = Inr ((stateAfter opsG' startG)\<lparr>gameState := Some s'\<rparr>) \<and>
         map bank (players s') = [[twoM1, fiveM2], []] \<and>
         map hand (players s') = map hand (players (snapshot (stateAfter opsG' startG))) \<and>
         map properties (players s') = [[], []] \<and>
         take 4 (logs s') = [''Note: No change is given in MonoDeal!'', ''Player 2 paid 5M (5M) from bank.'', ''Player 2 paid 2M (2M) from bank.'',
            ''Player 1 used Debt Collector: Player 2 owes 5M.''] \<and>
         discardPile s' = [justSayNo2, justSayNo1, debtCollector1] \<and> pendingAction s' = None \<and>
         actionsRemaining s' = 2)"
proof -
  let ?a = "stateAfter opsG startG"
  let ?pa = "the (pendingAction (snapshot ?a))"
  let ?b = "stateAfter opsG' startG"
  let ?pb = "the (pendingAction (snapshot ?b))"
  from exampleG_stack1 obtain lg where a: "?a = \<lparr>gameState = Some
          \<lparr>players =
             [\<lparr>player_id = ''p1'', player_name = ''Player 1'',
                 hand = [justSayNo1, oneM1, oneM2, oneM3, passGo1, passGo2, passGo5, passGo6],
                 bank = [], properties = [], isAI = False\<rparr>,
              \<lparr>player_id = ''p2'', player_name = ''Player 2'',
                 hand = [oneM4, oneM5, passGo3, passGo4],
                 bank = [fiveM2, twoM1], properties = [], isAI = False\<rparr>],
             activePlayerIndex = 0, deck = restOf frontG,
             discardPile = [justSayNo2], phase = PLAY_PHASE, actionsRemaining = 3,
             logs = lg, winner = None, multiplayerRole = None,
             pendingAction =
               Some \<lparr>pa_type = DEBT_COLLECTOR, pa_card = debtCollector1,
                      attackerIndex = 0, targetIndex = None, targetSetIndex = None,
                      mySetIndex = None, jsnStack = Some 1\<rparr>\<rparr>,
         pendingRentCard = None, pendingForceDeal = None, pendingSlyDeal = None\<rparr>" by blast
  from exampleG_stack2 obtain lg' where b: "?b = \<lparr>gameState = Some
          \<lparr>players =
             [\<lparr>player_id = ''p1'', player_name = ''Player 1'',
                 hand = [oneM1, oneM2, oneM3, passGo1, passGo2, passGo5, passGo6],
                 bank = [], properties = [], isAI = False\<rparr>,
              \<lparr>player_id = ''p2'', player_name = ''Player 2'',
                 hand = [oneM4, oneM5, passGo3, passGo4],
                 bank = [fiveM2, twoM1], properties = [], isAI = False\<rparr>],
             activePlayerIndex = 0, deck = restOf frontG,
             discardPile = [justSayNo2, justSayNo1], phase = PLAY_PHASE, actionsRemaining = 3,
             logs = lg', winner = None, multiplayerRole = None,
             pendingAction =
               Some \<lparr>pa_type = DEBT_COLLECTOR, pa_card = debtCollector1,
                      attackerIndex = 0, targetIndex = None, targetSetIndex = None,
                      mySetIndex = None, jsnStack = Some 2\<rparr>\<rparr>,
         pendingRentCard = None, pendingForceDeal = None, pendingSlyDeal = None\<rparr>" by blast
  have g: "gameState ?a = Some (snapshot ?a)" by (simp add: a snapshot_def)
  have p: "pendingAction (snapshot ?a) = Some ?pa" by (simp add: a snapshot_def)
  have l: "length (players (snapshot ?a)) = 2" by (simp add: a snapshot_def)
  have at: "attackerIndex ?pa = 0 \<or> attackerIndex ?pa = 1" by (simp add: a snapshot_def)
  have ac: "activePlayerIndex (snapshot ?a) = 0 \<or> activePlayerIndex (snapshot ?a) = 1"
    by (simp add: a snapshot_def)
  have r: "\<not> False \<or>
         (\<forall>p. at_index (players (snapshot ?a)) (responderIndex ?pa) = Some p \<longrightarrow>
              (\<forall>c\<in>set (hand p). card_name c \<noteq> ''Just Say No''))"
    by simp
  have v: "odd (currentJsnStack ?pa)" "pa_card ?pa = debtCollector1"
    "discardPile (snapshot ?a) = [justSayNo2]" "actionsRemaining (snapshot ?a) = 3"
    "map bank (players (snapshot ?a)) = [[], [fiveM2, twoM1]]"
    by (simp_all add: a snapshot_def currentJsnStack_def)
  from resolvePendingAction_final [OF g p l at ac r] v
  have first: "\<exists>s'. resolvePendingAction False ?a = Inr (?a\<lparr>gameState := Some s'\<rparr>) \<and>
         players s' = players (snapshot ?a) \<and>
         discardPile s' = [justSayNo2, debtCollector1] \<and> pendingAction s' = None \<and>
         actionsRemaining s' = 2"
    unfolding Let_def by auto
  have g': "gameState ?b = Some (snapshot ?b)" by (simp add: b snapshot_def)
  have p': "pendingAction (snapshot ?b) = Some ?pb" by (simp add: b snapshot_def)
  have l': "length (players (snapshot ?b)) = 2" by (simp add: b snapshot_def)
  have at': "attackerIndex ?pb = 0 \<or> attackerIndex ?pb = 1" by (simp add: b snapshot_def)
  have ac': "activePlayerIndex (snapshot ?b) = 0 \<or> activePlayerIndex (snapshot ?b) = 1"
    by (simp add: b snapshot_def)
  have r': "\<not> True \<or>
         (\<forall>p. at_index (players (snapshot ?b)) (responderIndex ?pb) = Some p \<longrightarrow>
              (\<forall>c\<in>set (hand p). card_name c \<noteq> ''Just Say No''))"
    by (simp add: b snapshot_def responderIndex_def currentJsnStack_def at_index_def js_rem_def)
  have v': "even (currentJsnStack ?pb)" "pa_card ?pb = debtCollector1"
    "discardPile (snapshot ?b) = [justSayNo2, justSayNo1]" "actionsRemaining (snapshot ?b) = 3"
    "map bank (players (snapshot ?b)) = [[], [fiveM2, twoM1]]" "pa_type ?pb = DEBT_COLLECTOR"
    by (simp_all add: b snapshot_def currentJsnStack_def)
  let ?att = "players (snapshot ?b) ! nat (attackerIndex ?pb)"
  let ?opp = "players (snapshot ?b) ! nat (1 - attackerIndex ?pb)"
  let ?pay = "processPayment ?opp ?att 5
                ((player_name ?att @ '' used Debt Collector: '' @ player_name ?opp @ '' owes 5M.'')
                 # logs (snapshot ?b))"
  from resolvePendingAction_final [OF g' p' l' at' ac' r', unfolded Let_def] v'(1,6)
  obtain s' where s': "resolvePendingAction True ?b = Inr (?b\<lparr>gameState := Some s'\<rparr>)"
      "discardPile s' = discardPile (snapshot ?b) @ [pa_card ?pb]" "pendingAction s' = None"
      "actionsRemaining s' = actionsRemaining (snapshot ?b) - 1"
      "players s' = (players (snapshot ?b))
         [nat (attackerIndex ?pb) := toPlayer ?pay, nat (1 - attackerIndex ?pb) := fromPlayer ?pay]"
      "logs s' = log_p ?pay"
    by blast
  have pay: "map bank ((players (snapshot ?b))
         [nat (attackerIndex ?pb) := toPlayer ?pay, nat (1 - attackerIndex ?pb) := fromPlayer ?pay])
       = [[twoM1, fiveM2], []]"
    "map hand ((players (snapshot ?b))
         [nat (attackerIndex ?pb) := toPlayer ?pay, nat (1 - attackerIndex ?pb) := fromPlayer ?pay])
       = map hand (players (snapshot ?b))"
    "map properties ((players (snapshot ?b))
         [nat (attackerIndex ?pb) := toPlayer ?pay, nat (1 - attackerIndex ?pb) := fromPlayer ?pay])
       = [[], []]"
    "take 4 (log_p ?pay) = [''Note: No change is given in MonoDeal!'', ''Player 2 paid 5M (5M) from bank.'', ''Player 2 paid 2M (2M) from bank.'',
        ''Player 1 used Debt Collector: Player 2 owes 5M.'']"
    by (simp_all add: b snapshot_def processPayment_def bankLoop.simps bankCond_def bankStep_def
          propertyLoop.simps propertyCond_def show_int_def digits.simps Let_def)
  have b1: "map bank (players s') = [[twoM1, fiveM2], []]" by (simp only: s'(5) pay(1))
  have b2: "map hand (players s') = map hand (players (snapshot ?b))" by (simp only: s'(5) pay(2))
  have b3: "map properties (players s') = [[], []]" by (simp only: s'(5) pay(3))
  have b4: "take 4 (logs s') = [''Note: No change is given in MonoDeal!'',
        ''Player 2 paid 5M (5M) from bank.'', ''Player 2 paid 2M (2M) from bank.'',
        ''Player 1 used Debt Collector: Player 2 owes 5M.'']" by (simp only: s'(6) pay(4))
  have b5: "discardPile s' = [justSayNo2, justSayNo1, debtCollector1]"
    by (simp add: s'(2) v'(2,3))
  have b6: "actionsRemaining s' = 2" by (simp add: s'(4) v'(4))
  have second: "\<exists>s'. resolvePendingAction True ?b = Inr (?b\<lparr>gameState := Some s'\<rparr>) \<and>
         map bank (players s') = [[twoM1, fiveM2], []] \<and>
         map hand (players s') = map hand (players (snapshot ?b)) \<and>
         map properties (players s') = [[], []] \<and>
         take 4 (logs s') = [''Note: No change is given in MonoDeal!'', ''Player 2 paid 5M (5M) from bank.'', ''Player 2 paid 2M (2M) from bank.'',
            ''Player 1 used Debt Collector: Player 2 owes 5M.''] \<and>
         discardPile s' = [justSayNo2, justSayNo1, debtCollector1] \<and> pendingAction s' = None \<and>
         actionsRemaining s' = 2"
    by (rule exI [of _ s']) (intro conjI s'(1) b1 b2 b3 b4 b5 s'(3) b6)
  from v(1,5) first v'(1,5) second show ?thesis by (intro conjI)
qed

text \<open>
  C3. The completion invariant does not hold in every reachable state. In example B player 1
  holds a Dark Blue set of three cards, flagged complete, the limit being two; paying with
  its last card leaves two cards and the flag false, because a removal sets the flag to
  false without counting the cards.
\<close>

theorem removal_breaks_completion_flag:
  "succeeds opsB startB \<and>
   completionInvariant (snapshot (stateAfter (butlast opsB) startB)) \<and>
   properties (players (snapshot (stateAfter (butlast opsB) startB)) ! 0)
     = [\<lparr>color = DARK_BLUE, cards = [parkLane1, parkLane2, wildDarkBlueGreen], isComplete = True\<rparr>] \<and>
   properties (players (snapshot (stateAfter opsB startB)) ! 0)
     = [\<lparr>color = DARK_BLUE, cards = [parkLane1, parkLane2], isComplete = False\<rparr>] \<and>
   SET_LIMITS DARK_BLUE = 2 \<and>
   \<not> completionInvariant (snapshot (stateAfter opsB startB))"
  by (simp add: startB_def frontB_def opsB_def engine_defs succeeds_def completionInvariant_def)

text \<open>
  C8. An unblocked Sly Deal on an incomplete, non-empty set takes its last card, but places
  it by a rule that lacks the last choice of \<open>placeCard\<close>: in example D the attacker holds a
  complete Dark Blue set and no incomplete set of either colour of the stolen wild card, and
  the card opens a second Dark Blue set where \<open>placeCard\<close> adds it to the complete one.
\<close>

theorem sly_deal_skips_complete_set:
  "succeeds opsD startD \<and>
   properties (players (snapshot (stateAfter (butlast opsD) startD)) ! 0)
     = [\<lparr>color = DARK_BLUE, cards = [parkLane1, parkLane2], isComplete = True\<rparr>] \<and>
   properties (players (snapshot (stateAfter opsD startD)) ! 0)
     = [\<lparr>color = DARK_BLUE, cards = [parkLane1, parkLane2], isComplete = True\<rparr>,
        \<lparr>color = DARK_BLUE, cards = [wildDarkBlueGreen], isComplete = False\<rparr>] \<and>
   properties (placeCard (players (snapshot (stateAfter (butlast opsD) startD)) ! 0) wildDarkBlueGreen)
     = [\<lparr>color = DARK_BLUE, cards = [parkLane1, parkLane2, wildDarkBlueGreen], isComplete = True\<rparr>]"
  by (simp add: startD_def frontD_def opsD_def engine_defs succeeds_def)

text \<open>
  C5, as stated, fails: in example E the creditor holds an incomplete Brown set and no Light
  Blue set; the surrendered Light Blue/Brown wild card opens a new Light Blue set, where
  \<open>placeCard\<close> puts it into the Brown set.
\<close>

theorem settlement_placement_counterexample:
  "properties (players (snapshot (stateAfter (opsE @ [ResolvePendingAction False]) startE)) ! 0)
     \<noteq> properties (placeCard (players (snapshot (stateAfter opsE startE)) ! 0) wildLightBlueBrown)"
  by (simp add: startE_def frontE_def opsE_def engine_defs)

text \<open>
  C5, amended. A pass of the second loop takes the last card of the debtor's first set that
  holds a card and places it by the plain rule of \<open>assignToProperty\<close>: it joins the creditor's
  first set of its own colour (\<open>ANY\<close> when it has none), complete or not, and opens a new set at
  the end when there is none. Neither the secondary colour nor completeness plays a part.
\<close>

theorem liquidation_placement:
  assumes "propertyStep st = Some st'"
  shows "\<exists>i. findIndex (\<lambda>p. 0 < length (cards p)) (properties (fromPlayer st)) = Some i \<and>
           properties (fromPlayer st') = popFromSet (properties (fromPlayer st)) i \<and>
           properties (toPlayer st')
             = assignToProperty_spec (properties (toPlayer st))
                 (last (cards (properties (fromPlayer st) ! i)))"
proof -
  from assms obtain i where i: "findIndex (\<lambda>p. 0 < length (cards p)) (properties (fromPlayer st)) = Some i"
    by (auto simp: propertyStep_def split: option.splits)
  let ?c = "last (cards (properties (fromPlayer st) ! i))"
  from assms i have a: "properties (fromPlayer st') = popFromSet (properties (fromPlayer st)) i"
    by (auto simp: propertyStep_def Let_def)
  from assms i have "properties (toPlayer st')
      = (case findIndex (\<lambda>p. color p = targetColorOf ?c) (properties (toPlayer st)) of
           None \<Rightarrow> pushNewSet (properties (toPlayer st)) (targetColorOf ?c) ?c
         | Some j \<Rightarrow> pushToSet (properties (toPlayer st)) j ?c)"
    by (auto simp: propertyStep_def Let_def)
  then have b: "properties (toPlayer st') = assignToProperty_spec (properties (toPlayer st)) ?c"
    by (simp only: assignColor_findIndex assignToProperty_spec_def targetColorOf_def)
  from i a b show ?thesis by blast
qed

text \<open>In example E the wild card opens a Light Blue set behind the creditor's Brown set.\<close>

theorem liquidation_placement_witness:
  "propertyStep paymentE \<noteq> None \<and>
   properties (toPlayer (the (propertyStep paymentE)))
     = [\<lparr>color = BROWN, cards = [oldKentRoad1], isComplete = False\<rparr>,
        \<lparr>color = LIGHT_BLUE, cards = [wildLightBlueBrown], isComplete = False\<rparr>] \<and>
   assignToProperty_spec (properties (toPlayer paymentE)) wildLightBlueBrown
     = properties (toPlayer (the (propertyStep paymentE)))"
  using liquidation_placement [of paymentE "the (propertyStep paymentE)"]
  by (simp add: paymentE_def startE_def frontE_def opsE_def engine_defs assignToProperty_spec_def)

text \<open>
  C9, as stated, fails: in example F the automated player plays a Sly Deal against two
  incomplete sets, and the target depends on the value of \<open>Math.random()\<close>.
\<close>

theorem executeMove_random_counterexample:
  "executeMove 0 0 ACTION_PLAY ''Sly Deal-22'' (stateAfter opsF startF)
     \<noteq> executeMove (1 / 2) 0 ACTION_PLAY ''Sly Deal-22'' (stateAfter opsF startF)"
  by (simp add: startF_def frontF_def opsF_def engine_defs eligibleIndices_def pickRandom_def)

text \<open>
  C9, amended. The result of a move is a function of the state, the move and the two values
  of \<open>Math.random()\<close>, and it does not depend on the random values unless an automated player
  plays a Force Deal or a Sly Deal as an action.
\<close>

theorem executeMove_deterministic:
  assumes "\<forall>s p i. gameState a = Some s \<longrightarrow>
             at_index (players s) (activePlayerIndex s) = Some p \<longrightarrow>
             findIndex (\<lambda>c. card_id c = cardId) (hand p) = Some i \<longrightarrow>
             \<not> isAI p \<or> ty \<noteq> ACTION_PLAY \<or>
             (card_name (hand p ! i) \<noteq> ''Force Deal'' \<and> card_name (hand p ! i) \<noteq> ''Sly Deal'')"
  shows "executeMove u1 u2 ty cardId a = executeMove v1 v2 ty cardId a"
proof (cases "gameState a")
  case None
  then show ?thesis by (simp add: executeMove_def)
next
  case (Some s)
  show ?thesis
  proof (cases "at_index (players s) (activePlayerIndex s)")
    case None
    with Some show ?thesis by (simp add: executeMove_def)
  next
    case p: (Some p)
    show ?thesis
    proof (cases "findIndex (\<lambda>c. card_id c = cardId) (hand p)")
      case None
      with Some p show ?thesis by (simp add: executeMove_def)
    next
      case i: (Some i)
      from assms Some p i have *: "\<not> isAI p \<or> ty \<noteq> ACTION_PLAY \<or>
             (card_name (hand p ! i) \<noteq> ''Force Deal'' \<and> card_name (hand p ! i) \<noteq> ''Sly Deal'')"
        by blast
      have fd: "\<not> isAI p \<Longrightarrow> playForceDeal u1 u2 a s p i (hand p ! i) = playForceDeal v1 v2 a s p i (hand p ! i)"
        by (simp add: playForceDeal_def)
      have sd: "\<not> isAI p \<Longrightarrow> playSlyDeal u1 a s p i (hand p ! i) = playSlyDeal v1 a s p i (hand p ! i)"
        by (simp add: playSlyDeal_def)
      show ?thesis
      proof (cases ty)
        case BANK
        with Some p i show ?thesis by (simp add: executeMove_def)
      next
        case PROPERTY_move
        with Some p i show ?thesis by (simp add: executeMove_def)
      next
        case ACTION_PLAY
        with * fd sd Some p i show ?thesis
          by (auto simp: executeMove_def Let_def)
      qed
    qed
  qed
qed

text \<open>In example A a human player plays a Debt Collector: the random values play no part.\<close>

theorem executeMove_deterministic_witness:
  "\<not> isAI (players (snapshot (stateAfter [StartTurn] startA)) ! 0) \<and>
   executeMove 0 0 ACTION_PLAY ''Debt Collector-31'' (stateAfter [StartTurn] startA)
     = executeMove (1 / 2) (1 / 3) ACTION_PLAY ''Debt Collector-31'' (stateAfter [StartTurn] startA)"
proof -
  have "\<not> isAI (players (snapshot (stateAfter [StartTurn] startA)) ! 0)"
    by (simp add: startA_def frontA_def engine_defs)
  moreover have "\<forall>s p i. gameState (stateAfter [StartTurn] startA) = Some s \<longrightarrow>
             at_index (players s) (activePlayerIndex s) = Some p \<longrightarrow>
             findIndex (\<lambda>c. card_id c = ''Debt Collector-31'') (hand p) = Some i \<longrightarrow>
             \<not> isAI p \<or> ACTION_PLAY \<noteq> ACTION_PLAY \<or>
             (card_name (hand p ! i) \<noteq> ''Force Deal'' \<and> card_name (hand p ! i) \<noteq> ''Sly Deal'')"
    by (simp add: startA_def frontA_def engine_defs)
  ultimately show ?thesis
    using executeMove_deterministic [of "stateAfter [StartTurn] startA" "''Debt Collector-31''"
        ACTION_PLAY 0 0 "1 / 2" "1 / 3"]
    by blast
qed




end
